theory Spec2Isabelle
  imports Main
begin

section \<open>Python values, truthiness, equality and exceptions\<close>

text \<open>
  The library is dynamically typed: \<open>nargs\<close>, \<open>default\<close> and \<open>value\<close> of a
  parameter hold arbitrary Python objects. The values that the code under study inspects are
  \<open>None\<close>, booleans, integers, strings and lists.
\<close>

datatype pyval = PNone | PBool bool | PInt int | PStr string | PList "pyval list"

text \<open>Python truthiness (\<open>not x\<close>, \<open>x or y\<close>).\<close>

fun py_truthy :: "pyval \<Rightarrow> bool" where
  "py_truthy PNone = False"
| "py_truthy (PBool b) = b"
| "py_truthy (PInt i) = (i \<noteq> 0)"
| "py_truthy (PStr s) = (s \<noteq> [])"
| "py_truthy (PList xs) = (xs \<noteq> [])"

text \<open>Python \<open>==\<close>: a boolean compares as the integer 0 or 1, lists compare item by item.\<close>

fun py_eq :: "pyval \<Rightarrow> pyval \<Rightarrow> bool" where
  "py_eq PNone PNone = True"
| "py_eq (PBool a) (PBool b) = (a = b)"
| "py_eq (PBool a) (PInt j) = ((if a then 1 else 0) = j)"
| "py_eq (PInt i) (PBool b) = (i = (if b then 1 else 0))"
| "py_eq (PInt i) (PInt j) = (i = j)"
| "py_eq (PStr s) (PStr t) = (s = t)"
| "py_eq (PList xs) (PList ys) = list_all2 py_eq xs ys"
| "py_eq _ _ = False"

text \<open>\<open>type(v).__name__\<close>.\<close>

fun py_type_name :: "pyval \<Rightarrow> string" where
  "py_type_name PNone = ''NoneType''"
| "py_type_name (PBool _) = ''bool''"
| "py_type_name (PInt _) = ''int''"
| "py_type_name (PStr _) = ''str''"
| "py_type_name (PList _) = ''list''"

text \<open>
  An exception message is kept as the source builds it: a literal, a format string with the
  arguments of the \<open>%\<close> operator, or the \<open>repr\<close> of a key (what \<open>str\<close> of a
  \<open>KeyError\<close> gives).
\<close>

datatype pymsg = Lit string | Percent string "pyval list" | Repr pyval

datatype exn =
    ValueError pymsg
  | TypeError pymsg
  | AttributeError pymsg
  | KeyError pymsg
  | IndexError pymsg
  | ArgumentTypeError pymsg

text \<open>\<open>str(e)\<close> of an exception.\<close>

fun exn_str :: "exn \<Rightarrow> pymsg" where
  "exn_str (ValueError m) = m"
| "exn_str (TypeError m) = m"
| "exn_str (AttributeError m) = m"
| "exn_str (KeyError m) = m"
| "exn_str (IndexError m) = m"
| "exn_str (ArgumentTypeError m) = m"

fun is_ValueError :: "exn + 'a \<Rightarrow> bool" where
  "is_ValueError (Inl (ValueError _)) = True"
| "is_ValueError _ = False"

text \<open>
  Truthiness of a rendered message. Every format string of the source contains literal
  text, and a \<open>repr\<close> is never empty, so only a literal can be the empty string.
\<close>

fun msg_truthy :: "pymsg \<Rightarrow> bool" where
  "msg_truthy (Lit s) = (s \<noteq> [])"
| "msg_truthy (Percent _ _) = True"
| "msg_truthy (Repr _) = True"

section \<open>parameter.py: the Parameter class\<close>

text \<open>
  A validator is a callable. The code looks at three things: whether it is a type object
  (\<open>type(verify).__name__ == 'type'\<close>) and then its \<open>__name__\<close>, how many parameters
  \<open>inspect.signature\<close> reports for it, and what calling it with one argument does (a
  value or a raised exception).
\<close>

datatype verifier =
    Function nat "pyval \<Rightarrow> exn + pyval"
  | TypeObj string nat "pyval \<Rightarrow> exn + pyval"

fun nparams :: "verifier \<Rightarrow> nat" where
  "nparams (Function n _) = n"
| "nparams (TypeObj _ n _) = n"

fun call :: "verifier \<Rightarrow> pyval \<Rightarrow> exn + pyval" where
  "call (Function _ f) = f"
| "call (TypeObj _ _ f) = f"

fun is_type :: "verifier \<Rightarrow> bool" where
  "is_type (Function _ _) = False"
| "is_type (TypeObj _ _ _) = True"

text \<open>The default validator \<open>lambda value: value\<close>.\<close>

definition identity_verify :: verifier where
  "identity_verify = Function 1 Inr"

text \<open>
  The attributes of a constructed \<open>Parameter\<close>. \<open>short\<close> and \<open>long\<close> hold the flag
  strings with their dashes; \<open>pvalue\<close>, \<open>pdefault\<close> and \<open>phelp\<close> are the attributes
  \<open>value\<close>, \<open>default\<close> and \<open>help\<close>.
\<close>

record Parameter =
  name :: string
  short :: "string option"
  long :: "string option"
  meta :: "string option"
  nargs :: pyval
  pdefault :: pyval
  pvalue :: pyval
  widget :: string
  phelp :: "string option"
  verify :: verifier

text \<open>
  The keyword arguments of \<open>Parameter.__init__\<close>; \<open>init_args\<close> gives the defaults of the
  signature for a given name.
\<close>

record Parameter_args =
  arg_name :: string
  arg_short :: "string option"
  arg_long :: "string option"
  arg_meta :: "string option"
  arg_nargs :: pyval
  arg_default :: pyval
  arg_verify :: verifier
  arg_help :: "string option"
  arg_widget :: string

definition init_args :: "string \<Rightarrow> Parameter_args" where
  "init_args n = \<lparr> arg_name = n, arg_short = None, arg_long = None, arg_meta = None,
     arg_nargs = PInt 1, arg_default = PNone, arg_verify = identity_verify,
     arg_help = None, arg_widget = ''text'' \<rparr>"

text \<open>The flag strings \<open>'-' + short\<close> and \<open>'--' + long\<close>.\<close>

definition short_flag :: "Parameter_args \<Rightarrow> string option" where
  "short_flag a = map_option (\<lambda>s. ''-'' @ s) (arg_short a)"

definition long_flag :: "Parameter_args \<Rightarrow> string option" where
  "long_flag a = map_option (\<lambda>l. ''--'' @ l) (arg_long a)"

text \<open>
  \<open>self.meta = meta or name if long != name else None\<close>: the conditional expression binds
  weaker than \<open>or\<close>.
\<close>

definition init_meta :: "Parameter_args \<Rightarrow> string option" where
  "init_meta a =
     (if arg_long a \<noteq> Some (arg_name a)
      then Some (case arg_meta a of
                   None \<Rightarrow> arg_name a
                 | Some m \<Rightarrow> if m \<noteq> [] then m else arg_name a)
      else None)"

text \<open>
  \<open>Parameter.__init__\<close>, with the class attribute \<open>used_flags\<close> passed in and returned.
  Each \<open>raise\<close> leaves the function with the registry as it is at that point.
\<close>

definition Parameter_init :: "string set \<Rightarrow> Parameter_args \<Rightarrow> string set \<times> (exn + Parameter)" where
  "Parameter_init used a =
     (if (case short_flag a of None \<Rightarrow> False | Some f \<Rightarrow> f \<in> used)
      then (used, Inl (ValueError (Percent ''Short flag '%s' for parameter %s is already used''
                         [PStr (the (arg_short a)), PStr (arg_name a)])))
      else
        let used1 = (case short_flag a of None \<Rightarrow> used | Some f \<Rightarrow> insert f used) in
        if (case long_flag a of None \<Rightarrow> False | Some f \<Rightarrow> f \<in> used1)
        then (used1, Inl (ValueError (Percent ''Long flag '%s' for parameter %s is already used''
                            [PStr (the (arg_long a)), PStr (arg_name a)])))
        else
          let used2 = (case long_flag a of None \<Rightarrow> used1 | Some f \<Rightarrow> insert f used1) in
          if nparams (arg_verify a) = 1
          then (used2, Inr \<lparr> name = arg_name a, short = short_flag a, long = long_flag a,
                             meta = init_meta a, nargs = arg_nargs a, pdefault = arg_default a,
                             pvalue = arg_default a,
                             widget = (if \<not> py_eq (arg_nargs a) (PInt 0) then arg_widget a else ''box''),
                             phelp = arg_help a, verify = arg_verify a \<rparr>)
          else (used2, Inl (ValueError
                  (Percent ''Function for verification of '%s' needs to have exactly 1 parameter.''
                     [PStr (arg_name a)]))))"

text \<open>
  A process constructs parameters one after the other; the registry is threaded through, and
  a failed construction yields no object.
\<close>

fun construct_all :: "string set \<Rightarrow> Parameter_args list \<Rightarrow> string set \<times> (exn + Parameter) list" where
  "construct_all used [] = (used, [])"
| "construct_all used (a # as) =
     (case Parameter_init used a of (used', r) \<Rightarrow>
        (case construct_all used' as of (used'', rs) \<Rightarrow> (used'', r # rs)))"

text \<open>The flag strings a constructed parameter carries.\<close>

definition flags_of :: "Parameter \<Rightarrow> string set" where
  "flags_of p = set_option (short p) \<union> set_option (long p)"

section \<open>genui.py: choosing and preparing the surface\<close>

subsection \<open>GenericUI.run\<close>

text \<open>
  A process as \<open>psutil\<close> shows it: its name and its parent, \<open>None\<close> when there is no
  parent. \<open>os.path.basename\<close> depends on the platform and is taken as a parameter.
\<close>

datatype proc = Proc string "proc option"

fun proc_name :: "proc \<Rightarrow> string" where
  "proc_name (Proc n _) = n"

fun proc_parent :: "proc \<Rightarrow> proc option" where
  "proc_parent (Proc _ p) = p"

datatype surface = GUI | CLI

text \<open>
  \<open>run\<close> up to the call of \<open>load_gui\<close> or \<open>load_cli\<close>: the surface it calls,
  \<open>sys.argv\<close> as it leaves it, and the title. \<open>sys.argv[0]\<close> of an empty list and
  \<open>.name()\<close> of a missing parent raise.
\<close>

definition GenericUI_run ::
  "(string \<Rightarrow> string) \<Rightarrow> string list \<Rightarrow> proc \<Rightarrow> string option
     \<Rightarrow> exn + (surface \<times> string list \<times> string)" where
  "GenericUI_run basename argv this title =
     (case argv of
        [] \<Rightarrow> Inl (IndexError (Lit ''list index out of range''))
      | a0 # _ \<Rightarrow>
          let script = basename a0;
              title' = (case title of None \<Rightarrow> script | Some t \<Rightarrow> t)
          in (case proc_parent this of
                None \<Rightarrow> Inl (AttributeError (Lit ''NoneType object has no attribute name''))
              | Some par \<Rightarrow>
                  let exe = proc_name par in
                  (case proc_parent par of
                     None \<Rightarrow> Inl (AttributeError (Lit ''NoneType object has no attribute name''))
                   | Some grand \<Rightarrow>
                       let parent_exe = proc_name grand;
                           load_ui = (script = exe \<and> parent_exe = ''explorer.exe'')
                       in if ''--gui'' \<in> set argv
                          then Inr (GUI, remove1 ''--gui'' argv, title')
                          else Inr (if load_ui then GUI else CLI, argv, title'))))"

subsection \<open>GenericUI.load\_cli\<close>

text \<open>The keyword arguments collected for \<open>parser.add_argument\<close>; an absent key is \<open>None\<close>.\<close>

record specifiers =
  dest :: "string option"
  action :: "string option"
  nargs_spec :: "pyval option"
  default_spec :: "pyval option"
  metavar :: "string option"
  help_spec :: "string option"
  type_spec :: "verifier option"

definition no_specifiers :: specifiers where
  "no_specifiers = \<lparr> dest = None, action = None, nargs_spec = None, default_spec = None,
     metavar = None, help_spec = None, type_spec = None \<rparr>"

text \<open>\<open>error_wrap\<close>: any exception of the validator becomes an \<open>ArgumentTypeError\<close>.\<close>

definition error_wrap :: "(pyval \<Rightarrow> exn + pyval) \<Rightarrow> pyval \<Rightarrow> exn + pyval" where
  "error_wrap func v = (case func v of Inl e \<Rightarrow> Inl (ArgumentTypeError (exn_str e)) | Inr r \<Rightarrow> Inr r)"

definition str_truthy :: "string option \<Rightarrow> bool" where
  "str_truthy s = (case s of None \<Rightarrow> False | Some t \<Rightarrow> t \<noteq> [])"

text \<open>The body of the loop of \<open>load_cli\<close>: identifiers and specifiers of one parameter.\<close>

definition cli_identifiers :: "Parameter \<Rightarrow> string list" where
  "cli_identifiers p =
     (if \<not> str_truthy (short p) \<and> \<not> str_truthy (long p) then [name p]
      else (case short p of None \<Rightarrow> [] | Some s \<Rightarrow> [s]) @ (case long p of None \<Rightarrow> [] | Some l \<Rightarrow> [l]))"

definition cli_specifiers :: "Parameter \<Rightarrow> specifiers" where
  "cli_specifiers p =
     (let s1 = (if \<not> str_truthy (short p) \<and> \<not> str_truthy (long p) then no_specifiers
                else no_specifiers\<lparr>dest := Some (name p)\<rparr>);
          s2 = (if \<not> py_eq (nargs p) (PInt 1)
                then (if py_eq (nargs p) (PInt 0)
                      then s1\<lparr>action := Some (if \<not> py_truthy (pdefault p) then ''store_true'' else ''store_false'')\<rparr>
                      else s1\<lparr>nargs_spec := Some (nargs p)\<rparr>)
                else s1);
          s3 = (if pdefault p \<noteq> PNone then s2\<lparr>default_spec := Some (pdefault p)\<rparr> else s2);
          s4 = (case meta p of None \<Rightarrow> s3 | Some m \<Rightarrow> s3\<lparr>metavar := Some m\<rparr>);
          s5 = (case phelp p of None \<Rightarrow> s4 | Some h \<Rightarrow> s4\<lparr>help_spec := Some h\<rparr>)
      in if action s5 = None
         then s5\<lparr>type_spec := Some (if \<not> is_type (verify p)
                                       then Function 1 (error_wrap (call (verify p)))
                                       else verify p)\<rparr>
         else s5)"

text \<open>
  \<open>load_cli\<close> itself. The argument parser is the standard library's; it is a parameter
  here: from the argument definitions it yields the parsed namespace of the process's command
  line or fails. The method reads the parameters and assigns to none of their attributes; the
  namespace is what the callback receives.
\<close>

definition load_cli ::
  "((string list \<times> specifiers) list \<Rightarrow> exn + (string \<times> pyval) list) \<Rightarrow> Parameter list
     \<Rightarrow> Parameter list \<times> (exn + (string \<times> pyval) list)" where
  "load_cli parser ps = (ps, parser (map (\<lambda>p. (cli_identifiers p, cli_specifiers p)) ps))"

text \<open>
  The two boolean actions of \<open>argparse\<close>, as the standard library defines them. The
  constructors of \<open>store_true\<close> and \<open>store_false\<close> take \<open>option_strings\<close>, \<open>dest\<close>,
  \<open>default\<close>, \<open>required\<close> and \<open>help\<close> only, so \<open>add_argument\<close> raises a
  \<open>TypeError\<close> for any of \<open>metavar\<close>, \<open>nargs\<close> and \<open>type\<close>. A parsed
  \<open>store_true\<close> stores \<open>True\<close> when one of its option strings occurs and its default
  (\<open>False\<close> unless given) otherwise; \<open>store_false\<close> stores \<open>False\<close> and defaults to
  \<open>True\<close>.
\<close>

definition add_argument :: "string list \<Rightarrow> specifiers \<Rightarrow> exn + unit" where
  "add_argument ids sp =
     (if action sp \<in> {Some ''store_true'', Some ''store_false''}
         \<and> (metavar sp \<noteq> None \<or> nargs_spec sp \<noteq> None \<or> type_spec sp \<noteq> None)
      then Inl (TypeError (Lit ''__init__() got an unexpected keyword argument''))
      else Inr ())"

definition parsed_flag :: "specifiers \<Rightarrow> bool \<Rightarrow> pyval" where
  "parsed_flag sp present =
     (if action sp = Some ''store_true''
      then (if present then PBool True
            else (case default_spec sp of None \<Rightarrow> PBool False | Some d \<Rightarrow> d))
      else (if present then PBool False
            else (case default_spec sp of None \<Rightarrow> PBool True | Some d \<Rightarrow> d)))"

text \<open>
  The entry of an arity-zero parameter in the callback arguments of the command-line surface:
  its definition goes through \<open>add_argument\<close>, then the action stores the value.
\<close>

definition cli_flag_entry :: "Parameter \<Rightarrow> bool \<Rightarrow> exn + pyval" where
  "cli_flag_entry p present =
     (case add_argument (cli_identifiers p) (cli_specifiers p) of
        Inl e \<Rightarrow> Inl e
      | Inr _ \<Rightarrow> Inr (parsed_flag (cli_specifiers p) present))"

subsection \<open>GenericUI.load\_gui\<close>

text \<open>\<open>type_check\<close>: a type given as validator becomes a check of the exact type name.\<close>

definition type_check :: "string \<Rightarrow> pyval \<Rightarrow> exn + pyval" where
  "type_check type_name v =
     (if py_type_name v \<noteq> type_name
      then Inl (ValueError (Percent ''%s is not of type %s'' [v, PStr type_name]))
      else Inr v)"

text \<open>
  \<open>str.split(',')\<close> and \<open>str.strip()\<close>. A character is a code point below 256; the
  white space of \<open>str.strip\<close> in that range is listed.
\<close>

fun split_on :: "char \<Rightarrow> string \<Rightarrow> string list" where
  "split_on c [] = [[]]"
| "split_on c (x # xs) =
     (if x = c then [] # split_on c xs
      else (x # hd (split_on c xs)) # tl (split_on c xs))"

definition py_isspace :: "char \<Rightarrow> bool" where
  "py_isspace c = (of_char c \<in> {9, 10, 11, 12, 13, 28, 29, 30, 31, 32, 133, 160 :: nat})"

definition strip :: "string \<Rightarrow> string" where
  "strip s = rev (dropWhile py_isspace (rev (dropWhile py_isspace s)))"

text \<open>\<open>sep.join(pieces)\<close>, the inverse of \<open>split\<close>.\<close>

fun join :: "string \<Rightarrow> string list \<Rightarrow> string" where
  "join sep [] = []"
| "join sep [p] = p"
| "join sep (p # q # ps) = p @ sep @ join sep (q # ps)"

text \<open>
  \<open>list_wrap\<close>: the loop over the stripped pieces appends each validated item to
  \<open>checked_list\<close>; the first exception leaves the loop. A value without \<open>split\<close> raises.
\<close>

fun validate_items :: "(pyval \<Rightarrow> exn + pyval) \<Rightarrow> string list \<Rightarrow> pyval list \<Rightarrow> exn + pyval" where
  "validate_items func [] checked_list = Inr (PList checked_list)"
| "validate_items func (v # vs) checked_list =
     (case func (PStr v) of
        Inl e \<Rightarrow> Inl e
      | Inr r \<Rightarrow> validate_items func vs (checked_list @ [r]))"

definition list_wrap :: "(pyval \<Rightarrow> exn + pyval) \<Rightarrow> pyval \<Rightarrow> exn + pyval" where
  "list_wrap func values =
     (case values of
        PStr s \<Rightarrow> validate_items func (map strip (split_on CHR '','' s)) []
      | _ \<Rightarrow> Inl (AttributeError (Lit ''object has no attribute split'')))"

text \<open>\<open>x in [...]\<close> compares with \<open>==\<close>.\<close>

definition py_in :: "pyval \<Rightarrow> pyval list \<Rightarrow> bool" where
  "py_in v xs = list_ex (py_eq v) xs"

fun type_name :: "verifier \<Rightarrow> string" where
  "type_name (TypeObj n _ _) = n"
| "type_name (Function _ _) = ''function''"

text \<open>
  The first loop of \<open>load_gui\<close>: the validator that is assigned back to
  \<open>parameter.verify\<close>.
\<close>

definition gui_verify :: "Parameter \<Rightarrow> verifier" where
  "gui_verify p =
     (let v1 = (if is_type (verify p) then Function 1 (type_check (type_name (verify p)))
                else verify p)
      in if \<not> py_in (nargs p) [PInt 0, PInt 1, PStr ''?'']
         then Function 1 (list_wrap (call v1))
         else v1)"

definition load_gui_prepare :: "Parameter list \<Rightarrow> Parameter list" where
  "load_gui_prepare ps = map (\<lambda>p. p\<lparr>verify := gui_verify p\<rparr>) ps"

section \<open>gengui.py: the form\<close>

text \<open>
  The controls kept in \<open>entries\<close>: a check button with its attached \<open>var\<close>, or a text
  entry with its text. Both carry a ttk style and the text of the tool tip bound to them,
  \<open>None\<close> when no tool tip is bound.
\<close>

datatype widget_obj =
    Checkbutton bool string "pymsg option"
  | Entry string string "pymsg option"

fun is_Checkbutton :: "widget_obj \<Rightarrow> bool" where
  "is_Checkbutton (Checkbutton _ _ _) = True"
| "is_Checkbutton (Entry _ _ _) = False"

text \<open>\<open>entry.get()\<close> of a text entry; a check button has no \<open>get\<close>.\<close>

fun entry_get :: "widget_obj \<Rightarrow> exn + string" where
  "entry_get (Entry x _ _) = Inr x"
| "entry_get (Checkbutton _ _ _) = Inl (AttributeError (Lit ''get''))"

text \<open>\<open>entry.config(style=s)\<close> and \<open>ToolTip(entry, text)\<close>: a falsy text unbinds.\<close>

fun config_style :: "string \<Rightarrow> widget_obj \<Rightarrow> widget_obj" where
  "config_style s (Checkbutton v _ t) = Checkbutton v s t"
| "config_style s (Entry x _ t) = Entry x s t"

fun ToolTip :: "widget_obj \<Rightarrow> pymsg option \<Rightarrow> widget_obj" where
  "ToolTip (Checkbutton v s _) t = Checkbutton v s t"
| "ToolTip (Entry x s _) t = Entry x s t"

definition tip_text :: "pymsg \<Rightarrow> pymsg option" where
  "tip_text m = (if msg_truthy m then Some m else None)"

text \<open>The class attribute \<open>help_text\<close>.\<close>

definition help_text :: "string \<Rightarrow> pyval option" where
  "help_text w =
     (if w = ''dir'' then Some (PStr ''Pick a directory...'')
      else if w = ''file'' then Some (PStr ''Pick a file...'')
      else if w = ''fileordir'' then Some (PStr ''Pick a file or directory...'')
      else if w = ''text'' then Some (PStr ''Enter...'')
      else if w = ''pass'' then Some (PStr [])
      else if w = ''box'' then Some (PBool False)
      else None)"

text \<open>
  The state of a \<open>GenericGUI\<close>. \<open>event\<close> is the flag of the \<open>threading.Event\<close> the caller
  waits on, \<open>disabled\<close> the state \<open>set_disabled\<close> gave the input window. The list box,
  the progress bar (its visibility) and the progress variable exist once a log window has been
  created. \<open>new_gui\<close> holds the class attributes and what \<open>__init__\<close> sets.
\<close>

record GenericGUI =
  parameters :: "string \<rightharpoonup> Parameter list"
  mode :: string
  entries :: "string \<rightharpoonup> widget_obj list"
  should_quit :: bool
  event :: bool
  disabled :: bool
  log_window :: bool
  log_list :: "string list option"
  progress_bar :: "bool option"
  progress :: "int option"
  processing :: bool
  msg_buffer :: string
  carriage_return :: bool

definition new_gui :: "(string \<rightharpoonup> Parameter list) \<Rightarrow> GenericGUI" where
  "new_gui ps = \<lparr> parameters = ps, mode = [], entries = Map.empty, should_quit = False,
     event = False, disabled = False, log_window = False, log_list = None,
     progress_bar = None, progress = None, processing = False, msg_buffer = [],
     carriage_return = False \<rparr>"

subsection \<open>log\<close>

text \<open>
  A fragment other than a line feed or a carriage return goes to the buffer. Otherwise the
  \<open>try\<close> block runs: a pending carriage return deletes the last entry (deleting from an
  empty list box does nothing), the marker is set from the fragment, the buffer is inserted
  at the end. Without a list box the first access raises, the rest of the block is skipped
  and the exception is swallowed. The buffer is emptied in every case.
\<close>

definition log :: "GenericGUI \<Rightarrow> string \<Rightarrow> GenericGUI" where
  "log g msg =
     (if msg \<noteq> [CHR 0x0A] \<and> msg \<noteq> [CHR 0x0D]
      then g\<lparr>msg_buffer := msg_buffer g @ msg\<rparr>
      else (case log_list g of
              None \<Rightarrow>
                (if carriage_return g then g\<lparr>msg_buffer := []\<rparr>
                 else g\<lparr>carriage_return := (msg = [CHR 0x0D]), msg_buffer := []\<rparr>)
            | Some l \<Rightarrow>
                g\<lparr>log_list := Some ((if carriage_return g then butlast l else l) @ [msg_buffer g]),
                  carriage_return := (msg = [CHR 0x0D]),
                  msg_buffer := []\<rparr>))"

fun log_all :: "GenericGUI \<Rightarrow> string list \<Rightarrow> GenericGUI" where
  "log_all g [] = g"
| "log_all g (m # ms) = log_all (log g m) ms"

subsection \<open>set\_progress\<close>

text \<open>
  Placing or hiding a progress bar that does not exist, and setting a progress variable that
  does not exist, raise; the state is returned as it is at that point.
\<close>

definition set_progress :: "GenericGUI \<Rightarrow> int \<Rightarrow> GenericGUI \<times> exn option" where
  "set_progress g percentage =
     (let clamped_percentage = max 0 (min percentage 100);
          no_bar = Some (AttributeError (Lit ''progress_bar''));
          r = (if \<not> processing g \<and> clamped_percentage > 0
               then (case progress_bar g of
                       None \<Rightarrow> (g, no_bar)
                     | Some _ \<Rightarrow> (g\<lparr>progress_bar := Some True, processing := True\<rparr>, None))
               else if processing g \<and> clamped_percentage = 100
               then (case progress_bar g of
                       None \<Rightarrow> (g, no_bar)
                     | Some _ \<Rightarrow> (g\<lparr>progress_bar := Some False, processing := False\<rparr>, None))
               else (g, None))
      in case r of
           (g', Some e) \<Rightarrow> (g', Some e)
         | (g', None) \<Rightarrow>
             (case progress g' of
                None \<Rightarrow> (g', Some (AttributeError (Lit ''progress'')))
              | Some _ \<Rightarrow> (g'\<lparr>progress := Some clamped_percentage\<rparr>, None)))"

text \<open>A sequence of reports; an exception ends it.\<close>

fun set_progress_all :: "GenericGUI \<Rightarrow> int list \<Rightarrow> GenericGUI \<times> exn option" where
  "set_progress_all g [] = (g, None)"
| "set_progress_all g (x # xs) =
     (case set_progress g x of
        (g', Some e) \<Rightarrow> (g', Some e)
      | (g', None) \<Rightarrow> set_progress_all g' xs)"

subsection \<open>confirm\<close>

text \<open>
  \<open>create_log_window\<close> makes a fresh list box, a progress variable (0) and a progress bar
  that is placed and hidden at once; \<open>processing\<close> is not touched.
\<close>

definition create_log_window :: "GenericGUI \<Rightarrow> GenericGUI" where
  "create_log_window g =
     g\<lparr>log_window := True, log_list := Some [], progress := Some 0, progress_bar := Some False\<rparr>"

definition set_disabled :: "GenericGUI \<Rightarrow> bool \<Rightarrow> GenericGUI" where
  "set_disabled g b = g\<lparr>disabled := b\<rparr>"

text \<open>
  The two ways \<open>confirm\<close> touches a control: the \<open>except\<close> branch sets the error style
  and binds the message as tool tip, the success branch sets the plain style and unbinds.
\<close>

definition mark_error :: "widget_obj \<Rightarrow> exn \<Rightarrow> widget_obj" where
  "mark_error entry e = ToolTip (config_style ''Custom.TEntry'' entry) (tip_text (exn_str e))"

definition clear_error :: "widget_obj \<Rightarrow> widget_obj" where
  "clear_error entry = ToolTip (config_style ''TEntry'' entry) None"

text \<open>
  One pass of the loop of \<open>confirm\<close> for a parameter and its control. The result is the
  parameter, the control, and whether \<open>completed\<close> survives. Reading \<open>var\<close> of a text
  entry raises outside the \<open>try\<close>; everything raised inside it (also \<open>get\<close> on a check
  button and a widget kind missing from \<open>help_text\<close>) marks the field.
\<close>

definition confirm_field :: "Parameter \<Rightarrow> widget_obj \<Rightarrow> exn + (Parameter \<times> widget_obj \<times> bool)" where
  "confirm_field param entry =
     (if widget param = ''box''
      then (case entry of
              Checkbutton v _ _ \<Rightarrow> Inr (param\<lparr>pvalue := PBool v\<rparr>, entry, True)
            | Entry _ _ _ \<Rightarrow> Inl (AttributeError (Lit ''var'')))
      else (case (case entry_get entry of
                    Inl e \<Rightarrow> Inl e
                  | Inr text \<Rightarrow> call (verify param) (PStr text)) of
              Inl e \<Rightarrow> Inr (param, mark_error entry e, False)
            | Inr v \<Rightarrow>
                (case help_text (widget param) of
                   None \<Rightarrow> Inr (param, mark_error entry (KeyError (Repr (PStr (widget param)))), False)
                 | Some h \<Rightarrow>
                     if \<not> py_eq v h
                     then Inr (param\<lparr>pvalue := v\<rparr>, clear_error entry, True)
                     else Inr (param, entry, True))))"

text \<open>
  The loop over \<open>enumerate(self.parameters[mode])\<close> with \<open>self.entries[mode][i]\<close>: both
  lists are walked together, a missing control raises \<open>IndexError\<close>. What was assigned
  before an exception stays assigned.
\<close>

fun confirm_loop ::
  "Parameter list \<Rightarrow> widget_obj list \<Rightarrow> bool
     \<Rightarrow> (Parameter list \<times> widget_obj list \<times> bool) \<times> exn option" where
  "confirm_loop [] es completed = (([], es, completed), None)"
| "confirm_loop (p # ps) [] completed =
     ((p # ps, [], completed), Some (IndexError (Lit ''list index out of range'')))"
| "confirm_loop (p # ps) (e # es) completed =
     (case confirm_field p e of
        Inl x \<Rightarrow> ((p # ps, e # es, completed), Some x)
      | Inr (p', e', ok) \<Rightarrow>
          (case confirm_loop ps es (completed \<and> ok) of
             ((ps', es', c), x) \<Rightarrow> ((p' # ps', e' # es', c), x)))"

text \<open>
  \<open>confirm\<close>. A missing mode key raises. \<open>print('completed', completed)\<close> writes its
  pieces through the redirected \<open>sys.stdout.write\<close>, that is through \<open>log\<close>. A completed
  pass disables the inputs, creates the log window and sets the event.
\<close>

definition confirm :: "GenericGUI \<Rightarrow> GenericGUI \<times> exn option" where
  "confirm g =
     (case parameters g (mode g) of
        None \<Rightarrow> (g, Some (KeyError (Repr (PStr (mode g)))))
      | Some ps \<Rightarrow>
          (case (case entries g (mode g) of
                   None \<Rightarrow> (if ps = [] then Inr [] else Inl (KeyError (Repr (PStr (mode g)))))
                 | Some es \<Rightarrow> Inr es) of
             Inl x \<Rightarrow> (g, Some x)
           | Inr es \<Rightarrow>
               (case confirm_loop ps es True of
                  ((ps', es', completed), x) \<Rightarrow>
                    let g1 = g\<lparr>parameters := (parameters g)(mode g \<mapsto> ps'),
                               entries := (if entries g (mode g) = None then entries g
                                           else (entries g)(mode g \<mapsto> es'))\<rparr>
                    in (case x of
                          Some e \<Rightarrow> (g1, Some e)
                        | None \<Rightarrow>
                            let g2 = log_all g1 [''completed'', '' '',
                                       (if completed then ''True'' else ''False''), [CHR 0x0A]]
                            in if completed
                               then ((create_log_window (set_disabled g2 True))\<lparr>event := True\<rparr>, None)
                               else (g2, None)))))"

text \<open>
  Two notions used to state what \<open>confirm\<close> does. A field is consistent when a check
  button stands for exactly the \<open>box\<close> parameters and the widget kind has a placeholder
  in \<open>help_text\<close>; this is how \<open>create_widget\<close> builds the fields of a form that
  starts. The validator of a field succeeds when the parameter is a check box (it has none)
  or when calling it on the text of the entry returns a value.
\<close>

definition consistent_field :: "Parameter \<Rightarrow> widget_obj \<Rightarrow> bool" where
  "consistent_field p e = ((widget p = ''box'') = is_Checkbutton e \<and> help_text (widget p) \<noteq> None)"

definition validator_succeeds :: "Parameter \<Rightarrow> widget_obj \<Rightarrow> bool" where
  "validator_succeeds p e =
     (widget p = ''box'' \<or>
      (case entry_get e of Inl _ \<Rightarrow> False | Inr text \<Rightarrow> \<not> isl (call (verify p) (PStr text))))"

section \<open>Properties of the constructor\<close>

text \<open>The registry only grows, and it holds every flag of a constructed parameter.\<close>

lemma Parameter_init_mono: "Parameter_init used a = (used', r) \<Longrightarrow> used \<subseteq> used'"
  by (auto simp: Parameter_init_def Let_def split: if_splits option.splits)

lemma Parameter_init_flags:
  "Parameter_init used a = (used', Inr p) \<Longrightarrow> flags_of p \<subseteq> used'"
  by (auto simp: Parameter_init_def Let_def flags_of_def split: if_splits option.splits)

lemma construct_all_flags:
  "construct_all used calls = (used', rs) \<Longrightarrow>
     used \<subseteq> used' \<and> (\<forall>p. Inr p \<in> set rs \<longrightarrow> flags_of p \<subseteq> used')"
proof (induction calls arbitrary: used used' rs)
  case Nil
  then show ?case by auto
next
  case (Cons a as)
  obtain u1 r where i: "Parameter_init used a = (u1, r)" by (cases "Parameter_init used a")
  obtain u2 rs2 where c: "construct_all u1 as = (u2, rs2)" by (cases "construct_all u1 as")
  from Cons.prems i c have eq: "used' = u2" "rs = r # rs2" by auto
  from Cons.IH[OF c] have ih: "u1 \<subseteq> u2" "\<forall>p. Inr p \<in> set rs2 \<longrightarrow> flags_of p \<subseteq> u2" by auto
  from Parameter_init_mono[OF i] have m: "used \<subseteq> u1" .
  have "\<And>p. r = Inr p \<Longrightarrow> flags_of p \<subseteq> u2"
    using Parameter_init_flags i ih(1) by blast
  with ih m eq show ?case by auto
qed

lemma Parameter_init_used_flag:
  "f \<in> used \<Longrightarrow> short_flag a = Some f \<or> long_flag a = Some f \<Longrightarrow>
     is_ValueError (snd (Parameter_init used a))"
  by (auto simp: Parameter_init_def Let_def split: option.splits)

lemma Parameter_init_bad_arity:
  "nparams (arg_verify a) \<noteq> 1 \<Longrightarrow> is_ValueError (snd (Parameter_init used a))"
  by (auto simp: Parameter_init_def Let_def split: option.splits)

text \<open>
  Claim C1. In a process that starts with an empty registry and has run any sequence of
  constructor calls, a further call whose short or long flag string is a flag of a parameter
  constructed before raises \<open>ValueError\<close>; and a call whose validator does not have
  exactly one parameter raises \<open>ValueError\<close>, whatever the registry. Both are results of
  the constructor call itself.
\<close>

theorem C1_configuration_errors:
  "(construct_all {} calls = (used, rs) \<and> Inr p \<in> set rs \<and> f \<in> flags_of p \<and>
      (short_flag a = Some f \<or> long_flag a = Some f)
      \<longrightarrow> is_ValueError (snd (Parameter_init used a)))
   \<and> (nparams (arg_verify a) \<noteq> 1 \<longrightarrow> is_ValueError (snd (Parameter_init U a)))"
  using construct_all_flags[of "{}" calls used rs] Parameter_init_used_flag[of f used a]
    Parameter_init_bad_arity[of a U]
  by blast


theorem C1_configuration_errors_witness:
  "construct_all {} [(init_args ''x'')\<lparr>arg_short := Some ''o''\<rparr>]
     = ({''-o''}, [Inr \<lparr> name = ''x'', short = Some ''-o'', long = None, meta = Some ''x'',
          nargs = PInt 1, pdefault = PNone, pvalue = PNone, widget = ''text'', phelp = None,
          verify = identity_verify \<rparr>])
   \<and> is_ValueError (snd (Parameter_init {''-o''} ((init_args ''y'')\<lparr>arg_short := Some ''o''\<rparr>)))
   \<and> is_ValueError (snd (Parameter_init {}
         ((init_args ''z'')\<lparr>arg_verify := Function 2 Inr\<rparr>)))"
proof -
  let ?x = "(init_args ''x'')\<lparr>arg_short := Some ''o''\<rparr>"
  let ?p = "\<lparr> name = ''x'', short = Some ''-o'', long = None, meta = Some ''x'',
          nargs = PInt 1, pdefault = PNone, pvalue = PNone, widget = ''text'', phelp = None,
          verify = identity_verify \<rparr>"
  have c: "construct_all {} [?x] = ({''-o''}, [Inr ?p])"
    by (simp add: Parameter_init_def init_args_def short_flag_def long_flag_def init_meta_def
        identity_verify_def)
  have f: "''-o'' \<in> flags_of ?p" by (simp add: flags_of_def)
  have s: "short_flag ((init_args ''y'')\<lparr>arg_short := Some ''o''\<rparr>) = Some ''-o''"
    by (simp add: short_flag_def)
  have n: "nparams (arg_verify ((init_args ''z'')\<lparr>arg_verify := Function 2 Inr\<rparr>)) \<noteq> 1"
    by simp
  show ?thesis
    using C1_configuration_errors[of "[?x]" "{''-o''}" "[Inr ?p]" ?p "''-o''"
        "(init_args ''y'')\<lparr>arg_short := Some ''o''\<rparr>" "{}"]
      C1_configuration_errors[of "[]" "{}" "[]" ?p "''-o''"
        "(init_args ''z'')\<lparr>arg_verify := Function 2 Inr\<rparr>" "{}"] c f s n
    by simp
qed

lemma Parameter_init_fresh:
  "Parameter_init used a = (used', Inr p) \<Longrightarrow> flags_of p \<inter> used = {}"
  by (auto simp: Parameter_init_def Let_def flags_of_def split: if_splits option.splits)

lemma construct_all_fresh:
  "construct_all used calls = (used', rs) \<Longrightarrow> Inr p \<in> set rs \<Longrightarrow> flags_of p \<inter> used = {}"
proof (induction calls arbitrary: used used' rs)
  case Nil
  then show ?case by auto
next
  case (Cons a as)
  obtain u1 r where i: "Parameter_init used a = (u1, r)" by (cases "Parameter_init used a")
  obtain u2 rs2 where c: "construct_all u1 as = (u2, rs2)" by (cases "construct_all u1 as")
  from Cons.prems(1) i c have eq: "rs = r # rs2" by auto
  from Parameter_init_mono[OF i] have m: "used \<subseteq> u1" .
  from Cons.prems(2) eq consider "r = Inr p" | "Inr p \<in> set rs2" by auto
  then show ?case
  proof cases
    case 1
    with i show ?thesis using Parameter_init_fresh by blast
  next
    case 2
    from Cons.IH[OF c 2] m show ?thesis by blast
  qed
qed

lemma Parameter_init_partial:
  assumes "f \<notin> used"
    and "(short_flag a = Some f \<and>
            ((\<exists>l. long_flag a = Some l \<and> (l \<in> used \<or> l = f)) \<or> nparams (arg_verify a) \<noteq> 1))
         \<or> (long_flag a = Some f \<and> (\<forall>s. short_flag a = Some s \<longrightarrow> s \<notin> used \<and> s \<noteq> f)
              \<and> nparams (arg_verify a) \<noteq> 1)"
  shows "is_ValueError (snd (Parameter_init used a)) \<and> f \<in> fst (Parameter_init used a)"
  using assms
  by (auto simp: Parameter_init_def Let_def split: option.splits)

text \<open>
  Claim C10. Construction is not atomic with respect to the registry. Take a process that
  started with an empty registry, and a constructor call that registers a fresh flag \<open>f\<close>
  and then fails: \<open>f\<close> is its short flag and the long flag is a duplicate or the
  validator has the wrong arity, or \<open>f\<close> is its long flag, the short flag is fresh and
  the validator has the wrong arity. The call raises \<open>ValueError\<close>, \<open>f\<close> stays in the
  registry, no parameter constructed before or after carries \<open>f\<close>, and any later call
  that uses \<open>f\<close> as a flag raises \<open>ValueError\<close>.
\<close>

theorem C10_failed_construction_keeps_flags:
  assumes "construct_all {} before = (used, rs)"
    and "f \<notin> used"
    and "(short_flag a = Some f \<and>
            ((\<exists>l. long_flag a = Some l \<and> (l \<in> used \<or> l = f)) \<or> nparams (arg_verify a) \<noteq> 1))
         \<or> (long_flag a = Some f \<and> (\<forall>s. short_flag a = Some s \<longrightarrow> s \<notin> used \<and> s \<noteq> f)
              \<and> nparams (arg_verify a) \<noteq> 1)"
    and "construct_all (fst (Parameter_init used a)) later = (used', rs')"
    and "short_flag b = Some f \<or> long_flag b = Some f"
  shows "is_ValueError (snd (Parameter_init used a))
       \<and> f \<in> fst (Parameter_init used a)
       \<and> (\<forall>p. Inr p \<in> set rs \<union> set rs' \<longrightarrow> f \<notin> flags_of p)
       \<and> is_ValueError (snd (Parameter_init used' b))"
proof -
  from Parameter_init_partial[OF assms(2,3)]
  have e: "is_ValueError (snd (Parameter_init used a))" and m: "f \<in> fst (Parameter_init used a)"
    by auto
  from construct_all_flags[OF assms(4)] m have "f \<in> used'" by blast
  then have l: "is_ValueError (snd (Parameter_init used' b))"
    using Parameter_init_used_flag assms(5) by blast
  have o1: "f \<notin> flags_of p" if "Inr p \<in> set rs" for p
    using construct_all_flags[OF assms(1)] assms(2) that by blast
  have o2: "f \<notin> flags_of p" if "Inr p \<in> set rs'" for p
    using construct_all_fresh[OF assms(4) that] m by blast
  from e m l o1 o2 show ?thesis by blast
qed

theorem C10_failed_construction_keeps_flags_witness:
  "construct_all {} [(init_args ''x'')\<lparr>arg_long := Some ''l''\<rparr>] =
      ({''--l''}, [Inr \<lparr> name = ''x'', short = None, long = Some ''--l'', meta = Some ''x'',
          nargs = PInt 1, pdefault = PNone, pvalue = PNone, widget = ''text'', phelp = None,
          verify = identity_verify \<rparr>])
   \<and> is_ValueError (snd (Parameter_init {''--l''}
        ((init_args ''a'')\<lparr>arg_short := Some ''v'', arg_long := Some ''l''\<rparr>)))
   \<and> ''-v'' \<in> fst (Parameter_init {''--l''}
        ((init_args ''a'')\<lparr>arg_short := Some ''v'', arg_long := Some ''l''\<rparr>))
   \<and> is_ValueError (snd (Parameter_init {''-v'', ''--l''}
        ((init_args ''b'')\<lparr>arg_short := Some ''v''\<rparr>)))"
proof -
  let ?x = "(init_args ''x'')\<lparr>arg_long := Some ''l''\<rparr>"
  let ?a = "(init_args ''a'')\<lparr>arg_short := Some ''v'', arg_long := Some ''l''\<rparr>"
  let ?b = "(init_args ''b'')\<lparr>arg_short := Some ''v''\<rparr>"
  let ?p = "\<lparr> name = ''x'', short = None, long = Some ''--l'', meta = Some ''x'',
          nargs = PInt 1, pdefault = PNone, pvalue = PNone, widget = ''text'', phelp = None,
          verify = identity_verify \<rparr>"
  have c: "construct_all {} [?x] = ({''--l''}, [Inr ?p])"
    by (simp add: Parameter_init_def init_args_def short_flag_def long_flag_def init_meta_def
        identity_verify_def)
  have n: "''-v'' \<notin> {''--l''}" by simp
  have h: "(short_flag ?a = Some ''-v'' \<and>
            ((\<exists>l. long_flag ?a = Some l \<and> (l \<in> {''--l''} \<or> l = ''-v'')) \<or> nparams (arg_verify ?a) \<noteq> 1))
         \<or> (long_flag ?a = Some ''-v'' \<and> (\<forall>s. short_flag ?a = Some s \<longrightarrow> s \<notin> {''--l''} \<and> s \<noteq> ''-v'')
              \<and> nparams (arg_verify ?a) \<noteq> 1)"
    by (simp add: short_flag_def long_flag_def)
  have f: "fst (Parameter_init {''--l''} ?a) = {''-v'', ''--l''}"
    by (simp add: Parameter_init_def short_flag_def long_flag_def init_args_def)
  have l: "construct_all (fst (Parameter_init {''--l''} ?a)) [] = ({''-v'', ''--l''}, [])"
    by (simp add: f)
  have b: "short_flag ?b = Some ''-v'' \<or> long_flag ?b = Some ''-v''"
    by (simp add: short_flag_def)
  from C10_failed_construction_keeps_flags[OF c n h l b] c show ?thesis by simp
qed

text \<open>
  Claim C6, as stated, fails: with a long flag equal to the name and no \<open>meta\<close> the
  stored \<open>meta\<close> is \<open>None\<close>, not the name; with a long flag that differs from the
  name and no \<open>meta\<close> the stored \<open>meta\<close> is the name.
\<close>

theorem C6_meta_counterexample:
  "map_sum id meta (snd (Parameter_init {} ((init_args ''option'')\<lparr>arg_long := Some ''option''\<rparr>)))
     = Inr None
   \<and> map_sum id meta (snd (Parameter_init {} ((init_args ''n'')\<lparr>arg_long := Some ''m''\<rparr>)))
     = Inr (Some ''n'')"
  by (simp add: Parameter_init_def init_args_def short_flag_def long_flag_def init_meta_def
      identity_verify_def)

text \<open>
  Claim C6, amended. When the long flag is absent or differs from the name, the stored
  \<open>meta\<close> is the supplied \<open>meta\<close> if one is given and not empty, and the name
  otherwise. When the long flag equals the name and no \<open>meta\<close> is given, no \<open>meta\<close>
  is stored.
\<close>

theorem C6_meta_stored:
  assumes "Parameter_init used a = (used', Inr p)"
  shows "(arg_long a \<noteq> Some (arg_name a) \<longrightarrow>
            (arg_meta a = None \<longrightarrow> meta p = Some (arg_name a))
          \<and> (\<forall>m. arg_meta a = Some m \<and> m \<noteq> [] \<longrightarrow> meta p = Some m)
          \<and> (arg_meta a = Some [] \<longrightarrow> meta p = Some (arg_name a)))
       \<and> (arg_long a = Some (arg_name a) \<and> arg_meta a = None \<longrightarrow> meta p = None)"
  using assms
  by (auto simp: Parameter_init_def Let_def init_meta_def split: if_splits option.splits)

theorem C6_meta_stored_witness:
  "Parameter_init {} ((init_args ''file_path'')\<lparr>arg_meta := Some ''input file''\<rparr>)
     = ({}, Inr \<lparr> name = ''file_path'', short = None, long = None, meta = Some ''input file'',
          nargs = PInt 1, pdefault = PNone, pvalue = PNone, widget = ''text'', phelp = None,
          verify = identity_verify \<rparr>)
   \<and> meta \<lparr> name = ''file_path'', short = None, long = None, meta = Some ''input file'',
          nargs = PInt 1, pdefault = PNone, pvalue = PNone, widget = ''text'', phelp = None,
          verify = identity_verify \<rparr> = Some ''input file''
   \<and> Parameter_init {} ((init_args ''option'')\<lparr>arg_long := Some ''option''\<rparr>)
     = ({''--option''}, Inr \<lparr> name = ''option'', short = None, long = Some ''--option'',
          meta = None, nargs = PInt 1, pdefault = PNone, pvalue = PNone, widget = ''text'',
          phelp = None, verify = identity_verify \<rparr>)
   \<and> meta \<lparr> name = ''option'', short = None, long = Some ''--option'',
          meta = None, nargs = PInt 1, pdefault = PNone, pvalue = PNone, widget = ''text'',
          phelp = None, verify = identity_verify \<rparr> = None"
proof -
  let ?a = "(init_args ''file_path'')\<lparr>arg_meta := Some ''input file''\<rparr>"
  let ?b = "(init_args ''option'')\<lparr>arg_long := Some ''option''\<rparr>"
  let ?p = "\<lparr> name = ''file_path'', short = None, long = None, meta = Some ''input file'',
          nargs = PInt 1, pdefault = PNone, pvalue = PNone, widget = ''text'', phelp = None,
          verify = identity_verify \<rparr>"
  let ?q = "\<lparr> name = ''option'', short = None, long = Some ''--option'',
          meta = None, nargs = PInt 1, pdefault = PNone, pvalue = PNone, widget = ''text'',
          phelp = None, verify = identity_verify \<rparr>"
  have i: "Parameter_init {} ?a = ({}, Inr ?p)"
    by (simp add: Parameter_init_def init_args_def short_flag_def long_flag_def init_meta_def
        identity_verify_def)
  have j: "Parameter_init {} ?b = ({''--option''}, Inr ?q)"
    by (simp add: Parameter_init_def init_args_def short_flag_def long_flag_def init_meta_def
        identity_verify_def)
  from C6_meta_stored[OF i] have m: "meta ?p = Some ''input file''"
    by (simp add: init_args_def)
  from C6_meta_stored[OF j] have n: "meta ?q = None"
    by (simp add: init_args_def)
  from i m j n show ?thesis by blast
qed

section \<open>Properties of the mode selector\<close>

text \<open>
  Claim C4. For a non-empty argument list: when the process has a parent and a grandparent,
  \<open>run\<close> selects the form exactly when \<open>--gui\<close> occurs among the arguments or the
  script name equals the parent's name while the grandparent is \<open>explorer.exe\<close>, and the
  command line in every other case; when \<open>--gui\<close> occurs its first occurrence is removed
  from the argument list, otherwise the list is unchanged. When the parent or the grandparent
  is missing, \<open>run\<close> raises \<open>AttributeError\<close> and selects no surface, with or without
  \<open>--gui\<close>: the names of both ancestors are read before \<open>--gui\<close> is looked for.
\<close>

theorem C4_mode_selector:
  "(argv = a0 # rest \<and> proc_parent this = Some par \<and> proc_parent par = Some grand \<longrightarrow>
      GenericUI_run basename argv this title =
        Inr (if ''--gui'' \<in> set argv
                \<or> (basename a0 = proc_name par \<and> proc_name grand = ''explorer.exe'')
             then GUI else CLI,
             if ''--gui'' \<in> set argv then remove1 ''--gui'' argv else argv,
             case title of None \<Rightarrow> basename a0 | Some t \<Rightarrow> t))
   \<and> (argv \<noteq> [] \<and> (proc_parent this = None
                      \<or> (\<exists>p. proc_parent this = Some p \<and> proc_parent p = None)) \<longrightarrow>
      GenericUI_run basename argv this title =
        Inl (AttributeError (Lit ''NoneType object has no attribute name'')))"
  by (cases argv) (auto simp: GenericUI_run_def Let_def)

theorem C4_mode_selector_witness:
  "GenericUI_run (\<lambda>p. last (split_on CHR ''/'' p)) [''/opt/tool.py'', ''--gui'', ''x'']
      (Proc ''python'' (Some (Proc ''bash'' (Some (Proc ''sshd'' None))))) None
     = Inr (GUI, [''/opt/tool.py'', ''x''], ''tool.py'')
   \<and> GenericUI_run (\<lambda>p. last (split_on CHR ''/'' p)) [''tool.exe'']
      (Proc ''tool.exe'' (Some (Proc ''tool.exe'' (Some (Proc ''explorer.exe'' None))))) (Some ''T'')
     = Inr (GUI, [''tool.exe''], ''T'')
   \<and> GenericUI_run (\<lambda>p. last (split_on CHR ''/'' p)) [''/opt/tool.py'', ''x'']
      (Proc ''python'' (Some (Proc ''bash'' (Some (Proc ''sshd'' None))))) None
     = Inr (CLI, [''/opt/tool.py'', ''x''], ''tool.py'')
   \<and> GenericUI_run (\<lambda>p. last (split_on CHR ''/'' p)) [''/opt/tool.py'', ''--gui'']
      (Proc ''python'' (Some (Proc ''init'' None))) None
     = Inl (AttributeError (Lit ''NoneType object has no attribute name''))"
proof -
  let ?bn = "\<lambda>p. last (split_on CHR ''/'' p)"
  have b: "?bn ''/opt/tool.py'' = ''tool.py''" "?bn ''tool.exe'' = ''tool.exe''" by simp_all
  from C4_mode_selector[of "[''/opt/tool.py'', ''--gui'', ''x'']" "''/opt/tool.py''" "[''--gui'', ''x'']"
      "Proc ''python'' (Some (Proc ''bash'' (Some (Proc ''sshd'' None))))"
      "Proc ''bash'' (Some (Proc ''sshd'' None))" "Proc ''sshd'' None" ?bn None, THEN conjunct1] b
  have 1: "GenericUI_run ?bn [''/opt/tool.py'', ''--gui'', ''x'']
      (Proc ''python'' (Some (Proc ''bash'' (Some (Proc ''sshd'' None))))) None
     = Inr (GUI, [''/opt/tool.py'', ''x''], ''tool.py'')"
    by simp
  from C4_mode_selector[of "[''tool.exe'']" "''tool.exe''" "[]"
      "Proc ''tool.exe'' (Some (Proc ''tool.exe'' (Some (Proc ''explorer.exe'' None))))"
      "Proc ''tool.exe'' (Some (Proc ''explorer.exe'' None))" "Proc ''explorer.exe'' None"
      ?bn "Some ''T''", THEN conjunct1] b
  have 2: "GenericUI_run ?bn [''tool.exe'']
      (Proc ''tool.exe'' (Some (Proc ''tool.exe'' (Some (Proc ''explorer.exe'' None))))) (Some ''T'')
     = Inr (GUI, [''tool.exe''], ''T'')"
    by simp
  from C4_mode_selector[of "[''/opt/tool.py'', ''x'']" "''/opt/tool.py''" "[''x'']"
      "Proc ''python'' (Some (Proc ''bash'' (Some (Proc ''sshd'' None))))"
      "Proc ''bash'' (Some (Proc ''sshd'' None))" "Proc ''sshd'' None" ?bn None, THEN conjunct1] b
  have 3: "GenericUI_run ?bn [''/opt/tool.py'', ''x'']
      (Proc ''python'' (Some (Proc ''bash'' (Some (Proc ''sshd'' None))))) None
     = Inr (CLI, [''/opt/tool.py'', ''x''], ''tool.py'')"
    by simp
  from C4_mode_selector[of "[''/opt/tool.py'', ''--gui'']" _ _
      "Proc ''python'' (Some (Proc ''init'' None))" _ _ ?bn None, THEN conjunct2]
  have 4: "GenericUI_run ?bn [''/opt/tool.py'', ''--gui'']
      (Proc ''python'' (Some (Proc ''init'' None))) None
     = Inl (AttributeError (Lit ''NoneType object has no attribute name''))"
    by simp
  from 1 2 3 4 show ?thesis by blast
qed

section \<open>Properties of the log\<close>

text \<open>
  Claim C8. With a list box in place: a fragment that is neither a line feed nor a carriage
  return is appended to the buffer and nothing else changes; a line feed or a carriage return
  commits the buffer as one entry, which replaces the last entry when a carriage return is
  pending and is appended otherwise, empties the buffer, and leaves the marker set exactly
  when the fragment was a carriage return. Starting from an empty log, an empty buffer and
  no pending marker, the fragments \<open>abc\<close>, carriage return, \<open>def\<close>, line feed leave
  the single entry \<open>def\<close>.
\<close>

theorem C8_log_ingestion:
  assumes "log_list g = Some l"
  shows "(msg \<noteq> [CHR 0x0A] \<and> msg \<noteq> [CHR 0x0D] \<longrightarrow>
            log g msg = g\<lparr>msg_buffer := msg_buffer g @ msg\<rparr>)
       \<and> (msg = [CHR 0x0A] \<or> msg = [CHR 0x0D] \<longrightarrow>
            log_list (log g msg)
              = Some ((if carriage_return g then butlast l else l) @ [msg_buffer g])
          \<and> carriage_return (log g msg) = (msg = [CHR 0x0D])
          \<and> msg_buffer (log g msg) = [])
       \<and> (l = [] \<and> msg_buffer g = [] \<and> \<not> carriage_return g \<longrightarrow>
            log_list (log_all g [''abc'', [CHR 0x0D], ''def'', [CHR 0x0A]]) = Some [''def''])"
  using assms by (auto simp: log_def)

theorem C8_log_ingestion_witness:
  "log_list (create_log_window (new_gui Map.empty)) = Some []
   \<and> log_list (log_all (create_log_window (new_gui Map.empty))
        [''abc'', [CHR 0x0D], ''def'', [CHR 0x0A]]) = Some [''def'']
   \<and> log_list (log ((create_log_window (new_gui Map.empty))\<lparr>msg_buffer := ''x''\<rparr>) [CHR 0x0A])
        = Some [''x'']"
proof -
  let ?g = "create_log_window (new_gui Map.empty)"
  have a: "log_list ?g = Some []" by (simp add: create_log_window_def)
  have b: "log_list (?g\<lparr>msg_buffer := ''x''\<rparr>) = Some []" by (simp add: create_log_window_def)
  have c: "msg_buffer ?g = [] \<and> \<not> carriage_return ?g"
    by (simp add: create_log_window_def new_gui_def)
  from C8_log_ingestion[OF a, of "''abc''"] c
  have s: "log_list (log_all ?g [''abc'', [CHR 0x0D], ''def'', [CHR 0x0A]]) = Some [''def'']"
    by blast
  from C8_log_ingestion[OF b, of "[CHR 0x0A]"]
  have t: "log_list (log (?g\<lparr>msg_buffer := ''x''\<rparr>) [CHR 0x0A])
             = Some ((if carriage_return (?g\<lparr>msg_buffer := ''x''\<rparr>) then butlast [] else [])
                  @ [msg_buffer (?g\<lparr>msg_buffer := ''x''\<rparr>)])"
    by blast
  have u: "\<not> carriage_return (?g\<lparr>msg_buffer := ''x''\<rparr>)"
    by (simp add: create_log_window_def new_gui_def)
  from t u have t': "log_list (log (?g\<lparr>msg_buffer := ''x''\<rparr>) [CHR 0x0A]) = Some [''x'']"
    by simp
  from a s t' show ?thesis by blast
qed

section \<open>Properties of the progress indicator\<close>

text \<open>
  One report on a state with a log window: it never raises, stores the clamped value, and
  moves the indicator and the \<open>processing\<close> flag together.
\<close>

lemma set_progress_step:
  assumes "progress_bar g = Some b" and "progress g = Some p"
  shows "\<exists>g'. set_progress g x = (g', None)
           \<and> progress g' = Some (max 0 (min x 100))
           \<and> progress_bar g' = Some (if \<not> processing g \<and> 0 < x then True
                                     else if processing g \<and> 100 \<le> x then False else b)
           \<and> processing g' = (if \<not> processing g \<and> 0 < x then True
                              else if processing g \<and> 100 \<le> x then False else processing g)"
  using assms by (auto simp: set_progress_def Let_def)

lemma set_progress_all_inv:
  assumes "progress_bar g = Some b" and "progress g = Some p"
  shows "\<exists>g' b' p'. set_progress_all g xs = (g', None) \<and> progress_bar g' = Some b'
           \<and> progress g' = Some p'
           \<and> (b = processing g \<longrightarrow> b' = processing g')
           \<and> (\<not> processing g \<and> (\<forall>x\<in>set xs. x \<le> 0) \<longrightarrow> b' = b \<and> \<not> processing g')
           \<and> (processing g \<and> (\<forall>x\<in>set xs. x < 100) \<longrightarrow> b' = b \<and> processing g')"
  using assms
proof (induction xs arbitrary: g b p)
  case Nil
  then show ?case by simp
next
  case (Cons x xs)
  define b1 where "b1 = (if \<not> processing g \<and> 0 < x then True
                         else if processing g \<and> 100 \<le> x then False else b)"
  from set_progress_step[OF Cons.prems, of x] obtain g1 where
    s: "set_progress g x = (g1, None)" and
    p1: "progress g1 = Some (max 0 (min x 100))" and
    b1: "progress_bar g1 = Some b1" and
    r1: "processing g1 = (if \<not> processing g \<and> 0 < x then True
                          else if processing g \<and> 100 \<le> x then False else processing g)"
    unfolding b1_def by blast
  from Cons.IH[OF b1 p1] obtain g' b' p' where
    a: "set_progress_all g1 xs = (g', None)" "progress_bar g' = Some b'" "progress g' = Some p'"
    and i1: "b1 = processing g1 \<longrightarrow> b' = processing g'"
    and i2: "\<not> processing g1 \<and> (\<forall>x\<in>set xs. x \<le> 0) \<longrightarrow> b' = b1 \<and> \<not> processing g'"
    and i3: "processing g1 \<and> (\<forall>x\<in>set xs. x < 100) \<longrightarrow> b' = b1 \<and> processing g'"
    by blast
  have c: "set_progress_all g (x # xs) = (g', None)" using s a(1) by simp
  have j1: "b = processing g \<longrightarrow> b' = processing g'"
    using i1 r1 by (auto simp: b1_def)
  have j2: "\<not> processing g \<and> (\<forall>y\<in>set (x # xs). y \<le> 0) \<longrightarrow> b' = b \<and> \<not> processing g'"
    using i2 r1 by (auto simp: b1_def)
  have j3: "processing g \<and> (\<forall>y\<in>set (x # xs). y < 100) \<longrightarrow> b' = b \<and> processing g'"
    using i3 r1 by (auto simp: b1_def)
  from c a(2,3) j1 j2 j3 show ?case by blast
qed

lemma set_progress_all_snoc:
  "set_progress_all g xs = (g1, None) \<Longrightarrow> set_progress_all g (xs @ [x]) = set_progress g1 x"
proof (induction xs arbitrary: g)
  case Nil
  then show ?case by (auto split: prod.splits option.splits)
next
  case (Cons y ys)
  then show ?case by (auto split: prod.splits option.splits)
qed

text \<open>
  Claim C7, as stated, fails: after the reports 50 and 0 the stored value is 0 and the
  indicator is visible.
\<close>

theorem C7_progress_counterexample:
  "progress (fst (set_progress_all (create_log_window (new_gui Map.empty)) [50, 0])) = Some 0
   \<and> progress_bar (fst (set_progress_all (create_log_window (new_gui Map.empty)) [50, 0]))
       = Some True"
  by (simp add: set_progress_def create_log_window_def new_gui_def)

text \<open>
  Claim C7, amended. On a form that has a log window no sequence of reports raises, and each
  report is stored clamped into [0,100]. The indicator follows the \<open>processing\<close> flag,
  which a new log window does not reset, and not the last value. While not processing, a
  report strictly between 0 and 100 shows the indicator and starts processing, and a report
  of 0 or less changes neither. While processing, a report of 100 or more hides the indicator
  and ends processing, and every smaller report, also 0, changes neither. Hence on a log
  window opened while not processing the indicator is visible exactly while processing, and
  it stays hidden while every report was 0 or less; on a log window opened while processing
  (the run before ended below 100) the indicator stays as it is, hidden, while every report
  is below 100.
\<close>

theorem C7_progress_indicator:
  assumes "progress_bar g = Some b" and "progress g = Some p0"
  shows "snd (set_progress_all g xs) = None
       \<and> snd (set_progress_all g (xs @ [x])) = None
       \<and> progress (fst (set_progress_all g (xs @ [x]))) = Some (max 0 (min x 100))
       \<and> 0 \<le> max 0 (min x 100) \<and> max 0 (min x 100) \<le> 100
       \<and> (\<not> processing (fst (set_progress_all g xs)) \<and> 0 < x \<and> x < 100 \<longrightarrow>
            progress_bar (fst (set_progress_all g (xs @ [x]))) = Some True
          \<and> processing (fst (set_progress_all g (xs @ [x]))))
       \<and> (\<not> processing (fst (set_progress_all g xs)) \<and> x \<le> 0 \<longrightarrow>
            progress_bar (fst (set_progress_all g (xs @ [x])))
              = progress_bar (fst (set_progress_all g xs))
          \<and> \<not> processing (fst (set_progress_all g (xs @ [x]))))
       \<and> (processing (fst (set_progress_all g xs)) \<and> 100 \<le> x \<longrightarrow>
            progress_bar (fst (set_progress_all g (xs @ [x]))) = Some False
          \<and> \<not> processing (fst (set_progress_all g (xs @ [x]))))
       \<and> (processing (fst (set_progress_all g xs)) \<and> x < 100 \<longrightarrow>
            progress_bar (fst (set_progress_all g (xs @ [x])))
              = progress_bar (fst (set_progress_all g xs))
          \<and> processing (fst (set_progress_all g (xs @ [x]))))
       \<and> (\<not> processing g \<and> \<not> b \<longrightarrow>
            progress_bar (fst (set_progress_all g xs))
              = Some (processing (fst (set_progress_all g xs))))
       \<and> (\<not> processing g \<and> \<not> b \<and> (\<forall>y\<in>set xs. y \<le> 0) \<longrightarrow>
            progress_bar (fst (set_progress_all g xs)) = Some False)
       \<and> (processing g \<and> (\<forall>y\<in>set xs. y < 100) \<longrightarrow>
            progress_bar (fst (set_progress_all g xs)) = Some b
          \<and> processing (fst (set_progress_all g xs)))"
proof -
  from set_progress_all_inv[OF assms, of xs] obtain g1 b1 p1 where
    a: "set_progress_all g xs = (g1, None)" "progress_bar g1 = Some b1" "progress g1 = Some p1"
    and i1: "b = processing g \<longrightarrow> b1 = processing g1"
    and i2: "\<not> processing g \<and> (\<forall>x\<in>set xs. x \<le> 0) \<longrightarrow> b1 = b \<and> \<not> processing g1"
    and i3: "processing g \<and> (\<forall>x\<in>set xs. x < 100) \<longrightarrow> b1 = b \<and> processing g1"
    by blast
  from set_progress_step[OF a(2,3), of x] obtain g2 where
    b: "set_progress g1 x = (g2, None)" "progress g2 = Some (max 0 (min x 100))"
       "progress_bar g2 = Some (if \<not> processing g1 \<and> 0 < x then True
                                else if processing g1 \<and> 100 \<le> x then False else b1)"
       "processing g2 = (if \<not> processing g1 \<and> 0 < x then True
                         else if processing g1 \<and> 100 \<le> x then False else processing g1)"
    by blast
  from set_progress_all_snoc[OF a(1), of x] b(1)
  have c: "set_progress_all g (xs @ [x]) = (g2, None)" by simp
  show ?thesis
    unfolding a(1) c using a(2) b(2,3,4) i1 i2 i3 by auto
qed

theorem C7_progress_indicator_witness:
  "progress_bar (fst (set_progress_all (create_log_window (new_gui Map.empty)) [0, 0])) = Some False
   \<and> progress_bar (fst (set_progress_all (create_log_window (new_gui Map.empty)) [0, 0, 30])) = Some True
   \<and> progress (fst (set_progress_all (create_log_window (new_gui Map.empty)) [0, 0, 30])) = Some 30
   \<and> progress_bar (fst (set_progress_all (create_log_window (new_gui Map.empty)) [30, 250])) = Some False
   \<and> progress (fst (set_progress_all (create_log_window (new_gui Map.empty)) [30, 250])) = Some 100
   \<and> processing (fst (set_progress_all (create_log_window (new_gui Map.empty)) [50]))
   \<and> progress_bar (fst (set_progress_all
        (create_log_window (fst (set_progress_all (create_log_window (new_gui Map.empty)) [50])))
        [30, 60, 99])) = Some False"
proof -
  define g where "g = create_log_window (new_gui Map.empty)"
  define h where "h = create_log_window (fst (set_progress_all g [50]))"
  have i: "progress_bar g = Some False" "progress g = Some 0" "\<not> processing g"
    by (simp_all add: g_def create_log_window_def new_gui_def)
  have r: "processing (fst (set_progress_all g [50]))"
    by (simp add: g_def set_progress_def create_log_window_def new_gui_def)
  have j: "progress_bar h = Some False" "progress h = Some 0" "processing h"
    using r by (simp_all add: h_def create_log_window_def)
  have z: "\<forall>y\<in>set [0, 0 :: int]. y \<le> 0" "\<forall>y\<in>set [30, 60, 99 :: int]. y < 100" by simp_all
  note t1 = C7_progress_indicator[OF i(1,2), of "[0, 0]" 30]
  note t2 = C7_progress_indicator[OF i(1,2), of "[30]" 250]
  note t3 = C7_progress_indicator[OF j(1,2), of "[30, 60, 99]" 0]
  from t1 i(3) z(1) have 1: "progress_bar (fst (set_progress_all g [0, 0])) = Some False"
    by blast
  from t1 i(3) z(1) have n1: "\<not> processing (fst (set_progress_all g [0, 0]))"
    by auto
  from t1 n1 have 2: "progress_bar (fst (set_progress_all g ([0, 0] @ [30]))) = Some True"
    by simp
  from t1 have 3: "progress (fst (set_progress_all g ([0, 0] @ [30]))) = Some 30"
    by simp
  have r30: "processing (fst (set_progress_all g [30]))"
    by (simp add: g_def set_progress_def create_log_window_def new_gui_def)
  from t2 r30 have 4: "progress_bar (fst (set_progress_all g ([30] @ [250]))) = Some False"
    by simp
  from t2 have 5: "progress (fst (set_progress_all g ([30] @ [250]))) = Some 100"
    by simp
  from t3 j(3) z(2) have 6: "progress_bar (fst (set_progress_all h [30, 60, 99])) = Some False"
    by blast
  from 1 2 3 4 5 r 6 show ?thesis
    unfolding h_def g_def by simp
qed

section \<open>Properties of the form's validators\<close>

text \<open>\<open>split_on\<close> is \<open>str.split\<close>: the pieces hold no separator and join back to the text.\<close>

lemma split_on_nonempty: "split_on c s \<noteq> []"
  by (induction s) auto

lemma split_on_no_sep: "p \<in> set (split_on c s) \<Longrightarrow> c \<notin> set p"
proof (induction s arbitrary: p)
  case Nil
  then show ?case by simp
next
  case (Cons x xs)
  show ?case
  proof (cases "x = c")
    case True
    with Cons show ?thesis by auto
  next
    case False
    obtain q qs where q: "split_on c xs = q # qs"
      using split_on_nonempty[of c xs] by (cases "split_on c xs") auto
    with Cons False show ?thesis by auto
  qed
qed

lemma join_split_on: "join [c] (split_on c s) = s"
proof (induction s)
  case Nil
  then show ?case by simp
next
  case (Cons x xs)
  obtain q qs where q: "split_on c xs = q # qs"
    using split_on_nonempty[of c xs] by (cases "split_on c xs") auto
  with Cons show ?case by (cases qs) auto
qed

text \<open>\<open>strip\<close> removes white space at both ends and nothing else.\<close>

lemma strip_decompose:
  "\<exists>a b. s = a @ strip s @ b \<and> list_all py_isspace a \<and> list_all py_isspace b"
proof -
  let ?t = "dropWhile py_isspace s"
  have 1: "s = takeWhile py_isspace s @ ?t" by simp
  have 2: "rev ?t = takeWhile py_isspace (rev ?t) @ dropWhile py_isspace (rev ?t)" by simp
  then have "?t = strip s @ rev (takeWhile py_isspace (rev ?t))"
    unfolding strip_def by (metis rev_append rev_rev_ident)
  with 1 have "s = takeWhile py_isspace s @ strip s @ rev (takeWhile py_isspace (rev ?t))"
    by simp
  moreover have "list_all py_isspace (takeWhile py_isspace s)"
    by (simp add: list_all_iff) (meson set_takeWhileD)
  moreover have "list_all py_isspace (rev (takeWhile py_isspace (rev ?t)))"
    by (simp add: list_all_iff) (meson set_takeWhileD)
  ultimately show ?thesis by blast
qed

lemma last_dropWhile: "dropWhile P xs \<noteq> [] \<Longrightarrow> last (dropWhile P xs) = last xs"
  by (induction xs) auto

lemma strip_ends:
  assumes "strip s \<noteq> []"
  shows "\<not> py_isspace (hd (strip s)) \<and> \<not> py_isspace (last (strip s))"
proof -
  let ?t = "dropWhile py_isspace s"
  let ?u = "dropWhile py_isspace (rev ?t)"
  from assms have u: "?u \<noteq> []" by (simp add: strip_def)
  then have l: "\<not> py_isspace (hd ?u)" by (rule hd_dropWhile)
  have "last (strip s) = hd ?u" using u by (simp add: strip_def last_rev)
  with l have a: "\<not> py_isspace (last (strip s))" by simp
  have t: "?t \<noteq> []"
  proof
    assume e: "?t = []"
    have "?u = []" unfolding e by simp
    with u show False by simp
  qed
  then have h: "\<not> py_isspace (hd ?t)" by (rule hd_dropWhile)
  have "hd (strip s) = last ?u" using u by (simp add: strip_def hd_rev)
  also have "\<dots> = last (rev ?t)" using u by (rule last_dropWhile)
  also have "\<dots> = hd ?t" using t by (simp add: last_rev)
  finally show ?thesis using h a by simp
qed

text \<open>The loop of \<open>list_wrap\<close>: all items pass, or the first failure is the result.\<close>

lemma validate_items_all:
  "list_all (\<lambda>x. \<not> isl (func (PStr x))) xs \<Longrightarrow>
     validate_items func xs acc = Inr (PList (acc @ map (\<lambda>x. projr (func (PStr x))) xs))"
  by (induction xs arbitrary: acc) (auto split: sum.splits)

lemma validate_items_first_failure:
  "list_all (\<lambda>x. \<not> isl (func (PStr x))) ys \<Longrightarrow> isl (func (PStr x)) \<Longrightarrow>
     validate_items func (ys @ x # zs) acc = func (PStr x)"
  by (induction ys arbitrary: acc) (auto split: sum.splits)

lemma gui_verify_multi:
  assumes "\<not> py_in (nargs p) [PInt 0, PInt 1, PStr ''?'']"
  shows "call (gui_verify p) (PStr raw) =
           validate_items (if is_type (verify p) then type_check (type_name (verify p))
                           else call (verify p))
             (map strip (split_on CHR '','' raw)) []"
  using assms by (simp add: gui_verify_def list_wrap_def)

lemma split_strip_scenario:
  "map strip (split_on CHR '','' ''a, b ,c'') = [''a'', ''b'', ''c'']"
  by (simp add: strip_def py_isspace_def)

text \<open>
  Claim C5, as stated, fails for a validator that is a bare type: with \<open>list\<close> as
  validator and arity \<open>+\<close> the wrapped validator does not apply \<open>list\<close> to the piece
  \<open>ab\<close> (which gives the list of its characters) but the exact-type check, which fails.
\<close>

theorem C5_list_validator_counterexample:
  "\<not> py_in (PStr ''+'') [PInt 0, PInt 1, PStr ''?'']
   \<and> call (verify \<lparr> name = ''n'', short = None, long = None, meta = Some ''n'',
          nargs = PStr ''+'', pdefault = PNone, pvalue = PNone, widget = ''text'', phelp = None,
          verify = TypeObj ''list'' 1
            (\<lambda>v. case v of PStr s \<Rightarrow> Inr (PList (map (\<lambda>c. PStr [c]) s))
                          | PList xs \<Rightarrow> Inr (PList xs)
                          | _ \<Rightarrow> Inl (TypeError (Lit ''object is not iterable''))) \<rparr>)
        (PStr ''ab'') = Inr (PList [PStr ''a'', PStr ''b''])
   \<and> call (gui_verify \<lparr> name = ''n'', short = None, long = None, meta = Some ''n'',
          nargs = PStr ''+'', pdefault = PNone, pvalue = PNone, widget = ''text'', phelp = None,
          verify = TypeObj ''list'' 1
            (\<lambda>v. case v of PStr s \<Rightarrow> Inr (PList (map (\<lambda>c. PStr [c]) s))
                          | PList xs \<Rightarrow> Inr (PList xs)
                          | _ \<Rightarrow> Inl (TypeError (Lit ''object is not iterable''))) \<rparr>)
        (PStr ''ab'')
      = Inl (ValueError (Percent ''%s is not of type %s'' [PStr ''ab'', PStr ''list'']))"
  by (simp add: py_in_def gui_verify_def list_wrap_def type_check_def strip_def py_isspace_def)

text \<open>
  Claim C5, amended. For every parameter whose arity is none of 0, 1 and \<open>?\<close>, the
  validator the form uses splits the raw text on commas, strips white space from each piece
  and applies the scalar validator to each piece in order, where the scalar validator is the
  parameter's own validator when that is a function and the exact-type check on the type's
  name when it is a bare type. When every piece passes, the result is the list of the
  validated pieces in order; otherwise it is the exception of the first piece that fails.
  With an identity validator the raw text \<open>a, b ,c\<close> yields the list \<open>a\<close>, \<open>b\<close>,
  \<open>c\<close>.
\<close>

theorem C5_list_validator:
  assumes "\<not> py_in (nargs p) [PInt 0, PInt 1, PStr ''?'']"
    and "scalar = (if is_type (verify p) then type_check (type_name (verify p))
                   else call (verify p))"
    and "pieces = map strip (split_on CHR '','' raw)"
  shows "(list_all (\<lambda>x. \<not> isl (scalar (PStr x))) pieces \<longrightarrow>
            call (gui_verify p) (PStr raw)
              = Inr (PList (map (\<lambda>x. projr (scalar (PStr x))) pieces)))
       \<and> (\<forall>ys x zs. pieces = ys @ x # zs \<and> list_all (\<lambda>y. \<not> isl (scalar (PStr y))) ys
              \<and> isl (scalar (PStr x)) \<longrightarrow>
            call (gui_verify p) (PStr raw) = scalar (PStr x))
       \<and> (\<not> is_type (verify p) \<and> call (verify p) = Inr \<longrightarrow>
            call (gui_verify p) (PStr ''a, b ,c'')
              = Inr (PList [PStr ''a'', PStr ''b'', PStr ''c'']))"
proof -
  have w: "call (gui_verify p) (PStr r) = validate_items scalar (map strip (split_on CHR '','' r)) []"
    for r
    using gui_verify_multi[OF assms(1)] assms(2) by simp
  have 1: "list_all (\<lambda>x. \<not> isl (scalar (PStr x))) pieces \<longrightarrow>
            call (gui_verify p) (PStr raw)
              = Inr (PList (map (\<lambda>x. projr (scalar (PStr x))) pieces))"
    using w[of raw] assms(3) validate_items_all[of scalar pieces "[]"] by simp
  have 2: "\<forall>ys x zs. pieces = ys @ x # zs \<and> list_all (\<lambda>y. \<not> isl (scalar (PStr y))) ys
              \<and> isl (scalar (PStr x)) \<longrightarrow>
            call (gui_verify p) (PStr raw) = scalar (PStr x)"
    using w[of raw] assms(3) validate_items_first_failure[of scalar _ _ _ "[]"] by metis
  have 3: "\<not> is_type (verify p) \<and> call (verify p) = Inr \<longrightarrow>
            call (gui_verify p) (PStr ''a, b ,c'')
              = Inr (PList [PStr ''a'', PStr ''b'', PStr ''c''])"
    using w[of "''a, b ,c''"] assms(2) split_strip_scenario by simp
  from 1 2 3 show ?thesis by blast
qed

theorem C5_list_validator_witness:
  "\<not> py_in (PStr ''*'') [PInt 0, PInt 1, PStr ''?'']
   \<and> call (gui_verify \<lparr> name = ''n'', short = None, long = None, meta = Some ''n'',
          nargs = PStr ''*'', pdefault = PNone, pvalue = PNone, widget = ''text'', phelp = None,
          verify = identity_verify \<rparr>) (PStr ''a, b ,c'')
      = Inr (PList [PStr ''a'', PStr ''b'', PStr ''c''])"
proof -
  let ?p = "\<lparr> name = ''n'', short = None, long = None, meta = Some ''n'',
          nargs = PStr ''*'', pdefault = PNone, pvalue = PNone, widget = ''text'', phelp = None,
          verify = identity_verify \<rparr>"
  have a: "\<not> py_in (nargs ?p) [PInt 0, PInt 1, PStr ''?'']" by (simp add: py_in_def)
  have b: "\<not> is_type (verify ?p) \<and> call (verify ?p) = Inr" by (simp add: identity_verify_def)
  from C5_list_validator[OF a refl refl, of "[]"] b
  have "call (gui_verify ?p) (PStr ''a, b ,c'') = Inr (PList [PStr ''a'', PStr ''b'', PStr ''c''])"
    by blast
  with a show ?thesis by simp
qed

section \<open>Properties of the command-line flags\<close>

lemma py_eq_zero_not_one: "py_eq n (PInt 0) \<Longrightarrow> \<not> py_eq n (PInt 1)"
  by (cases n) (auto split: if_splits)

lemma cli_specifiers_flag:
  assumes "py_eq (nargs p) (PInt 0)"
  shows "action (cli_specifiers p)
           = Some (if \<not> py_truthy (pdefault p) then ''store_true'' else ''store_false'')"
    and "default_spec (cli_specifiers p) = (if pdefault p \<noteq> PNone then Some (pdefault p) else None)"
    and "metavar (cli_specifiers p) = meta p"
    and "nargs_spec (cli_specifiers p) = None"
    and "type_spec (cli_specifiers p) = None"
  using assms py_eq_zero_not_one[OF assms]
  by (auto simp: cli_specifiers_def Let_def no_specifiers_def split: option.splits)

text \<open>
  Claim C3 holds for the arity-zero parameters whose \<open>meta\<close> is \<open>None\<close> (and fails for
  the others). For every arity-zero parameter: when \<open>meta\<close> is set, the definition is
  rejected with a \<open>TypeError\<close>, because \<open>load_cli\<close> passes \<open>metavar\<close> along with the
  boolean action. When \<open>meta\<close> is \<open>None\<close>, presence of the flag yields \<open>True\<close> for a
  falsy default and \<open>False\<close> for a truthy one, and absence yields the default itself, or
  \<open>False\<close> when the default is \<open>None\<close>; so with default \<open>False\<close> absence yields
  \<open>False\<close> and presence \<open>True\<close>, and with default \<open>True\<close> the polarity inverts.
\<close>

theorem C3_boolean_flag:
  assumes "py_eq (nargs p) (PInt 0)"
  shows "(meta p \<noteq> None \<longrightarrow>
            cli_flag_entry p present
              = Inl (TypeError (Lit ''__init__() got an unexpected keyword argument'')))
       \<and> (meta p = None \<longrightarrow>
            cli_flag_entry p True = Inr (PBool (\<not> py_truthy (pdefault p)))
          \<and> cli_flag_entry p False
              = Inr (if pdefault p = PNone then PBool False else pdefault p))
       \<and> (meta p = None \<and> pdefault p = PBool False \<longrightarrow>
            cli_flag_entry p False = Inr (PBool False) \<and> cli_flag_entry p True = Inr (PBool True))
       \<and> (meta p = None \<and> pdefault p = PBool True \<longrightarrow>
            cli_flag_entry p False = Inr (PBool True) \<and> cli_flag_entry p True = Inr (PBool False))"
  using cli_specifiers_flag[OF assms]
  by (auto simp: cli_flag_entry_def add_argument_def parsed_flag_def)

theorem C3_boolean_flag_witness:
  "snd (Parameter_init {} ((init_args ''verbose'')\<lparr>arg_short := Some ''v'',
          arg_nargs := PInt 0, arg_default := PBool False\<rparr>))
     = Inr \<lparr> name = ''verbose'', short = Some ''-v'', long = None, meta = Some ''verbose'',
          nargs = PInt 0, pdefault = PBool False, pvalue = PBool False, widget = ''box'',
          phelp = None, verify = identity_verify \<rparr>
   \<and> cli_flag_entry \<lparr> name = ''verbose'', short = Some ''-v'', long = None, meta = Some ''verbose'',
          nargs = PInt 0, pdefault = PBool False, pvalue = PBool False, widget = ''box'',
          phelp = None, verify = identity_verify \<rparr> False
       = Inl (TypeError (Lit ''__init__() got an unexpected keyword argument''))
   \<and> cli_flag_entry \<lparr> name = ''verbose'', short = Some ''-v'', long = None, meta = Some ''verbose'',
          nargs = PInt 0, pdefault = PBool False, pvalue = PBool False, widget = ''box'',
          phelp = None, verify = identity_verify \<rparr> True
       = Inl (TypeError (Lit ''__init__() got an unexpected keyword argument''))
   \<and> cli_flag_entry \<lparr> name = ''option'', short = Some ''-o'', long = Some ''--option'',
          meta = None, nargs = PInt 0, pdefault = PBool False, pvalue = PBool False,
          widget = ''box'', phelp = None, verify = identity_verify \<rparr> True
       = Inr (PBool True)"
proof -
  let ?p = "\<lparr> name = ''verbose'', short = Some ''-v'', long = None, meta = Some ''verbose'',
          nargs = PInt 0, pdefault = PBool False, pvalue = PBool False, widget = ''box'',
          phelp = None, verify = identity_verify \<rparr>"
  let ?q = "\<lparr> name = ''option'', short = Some ''-o'', long = Some ''--option'',
          meta = None, nargs = PInt 0, pdefault = PBool False, pvalue = PBool False,
          widget = ''box'', phelp = None, verify = identity_verify \<rparr>"
  have c: "snd (Parameter_init {} ((init_args ''verbose'')\<lparr>arg_short := Some ''v'',
          arg_nargs := PInt 0, arg_default := PBool False\<rparr>)) = Inr ?p"
    by (simp add: Parameter_init_def init_args_def short_flag_def long_flag_def init_meta_def
        identity_verify_def)
  have n: "py_eq (nargs ?p) (PInt 0)" "py_eq (nargs ?q) (PInt 0)" by simp_all
  from C3_boolean_flag[OF n(1), of False] C3_boolean_flag[OF n(1), of True]
    C3_boolean_flag[OF n(2), of True] c
  show ?thesis by simp
qed

section \<open>Properties of form submission\<close>

text \<open>Writing to the log touches none of the parameters, the fields and the hand-off.\<close>

lemma log_frame:
  "parameters (log g m) = parameters g \<and> entries (log g m) = entries g
   \<and> event (log g m) = event g \<and> disabled (log g m) = disabled g
   \<and> log_window (log g m) = log_window g \<and> mode (log g m) = mode g"
  by (simp add: log_def split: option.splits)

lemma log_all_frame:
  "parameters (log_all g ms) = parameters g \<and> entries (log_all g ms) = entries g
   \<and> event (log_all g ms) = event g \<and> disabled (log_all g ms) = disabled g
   \<and> log_window (log_all g ms) = log_window g \<and> mode (log_all g ms) = mode g"
  by (induction ms arbitrary: g) (simp_all add: log_frame)

text \<open>One field: only \<open>value\<close> of the parameter can change.\<close>

lemma confirm_field_frame:
  "confirm_field p e = Inr (p', e', ok) \<Longrightarrow> p' = p\<lparr>pvalue := pvalue p'\<rparr>"
  by (auto simp: confirm_field_def split: if_splits widget_obj.splits sum.splits option.splits)

lemma confirm_loop_frame:
  "confirm_loop ps es c = ((ps', es', c'), x) \<Longrightarrow>
     list_all2 (\<lambda>p p'. p' = p\<lparr>pvalue := pvalue p'\<rparr>) ps ps'"
proof (induction ps es c arbitrary: ps' es' c' x rule: confirm_loop.induct)
  case (1 es completed)
  then show ?case by simp
next
  case (2 p ps completed)
  then show ?case by (auto simp: list_all2_same)
next
  case (3 p ps e es completed)
  show ?case
  proof (cases "confirm_field p e")
    case (Inl a)
    with 3(2) show ?thesis by (auto simp: list_all2_same)
  next
    case (Inr r)
    obtain p1 e1 ok where r: "r = (p1, e1, ok)" by (cases r) auto
    obtain ps1 es1 c1 x1 where l: "confirm_loop ps es (completed \<and> ok) = ((ps1, es1, c1), x1)"
      by (metis prod_cases3 surj_pair)
    from 3(2) Inr r l have eq: "ps' = p1 # ps1" by simp
    from 3(1)[OF Inr _ _ l] r have ih: "list_all2 (\<lambda>p p'. p' = p\<lparr>pvalue := pvalue p'\<rparr>) ps ps1"
      by simp
    from confirm_field_frame Inr r have "p1 = p\<lparr>pvalue := pvalue p1\<rparr>" by blast
    with ih eq show ?thesis by simp
  qed
qed

text \<open>A consistent field never raises, and \<open>completed\<close> survives it exactly when its
  validator succeeds.\<close>

lemma confirm_field_consistent:
  "consistent_field p e \<Longrightarrow>
     \<exists>p' e'. confirm_field p e = Inr (p', e', validator_succeeds p e)"
  by (cases e)
     (auto simp: confirm_field_def consistent_field_def validator_succeeds_def
           split: sum.splits option.splits)

lemma confirm_loop_consistent:
  "list_all2 consistent_field ps es \<Longrightarrow>
     \<exists>ps' es'. confirm_loop ps es c
                 = ((ps', es', c \<and> list_all2 validator_succeeds ps es), None)
        \<and> length ps' = length ps \<and> length es' = length es
        \<and> (\<forall>i<length ps. \<exists>ok. confirm_field (ps ! i) (es ! i) = Inr (ps' ! i, es' ! i, ok))"
proof (induction ps es arbitrary: c rule: list_all2_induct)
  case Nil
  then show ?case by simp
next
  case (Cons p ps e es)
  from confirm_field_consistent[OF Cons.hyps(1)] obtain p1 e1 where
    f: "confirm_field p e = Inr (p1, e1, validator_succeeds p e)" by blast
  from Cons.IH[of "c \<and> validator_succeeds p e"] obtain ps1 es1 where
    l: "confirm_loop ps es (c \<and> validator_succeeds p e)
          = ((ps1, es1, (c \<and> validator_succeeds p e) \<and> list_all2 validator_succeeds ps es), None)"
    and n: "length ps1 = length ps" "length es1 = length es"
    and a: "\<forall>i<length ps. \<exists>ok. confirm_field (ps ! i) (es ! i) = Inr (ps1 ! i, es1 ! i, ok)"
    by blast
  have r: "confirm_loop (p # ps) (e # es) c
          = ((p1 # ps1, e1 # es1, c \<and> list_all2 validator_succeeds (p # ps) (e # es)), None)"
    using f l by auto
  have b: "\<forall>i<length (p # ps). \<exists>ok. confirm_field ((p # ps) ! i) ((e # es) ! i)
             = Inr ((p1 # ps1) ! i, (e1 # es1) ! i, ok)"
  proof (intro allI impI)
    fix i assume "i < length (p # ps)"
    then show "\<exists>ok. confirm_field ((p # ps) ! i) ((e # es) ! i)
             = Inr ((p1 # ps1) ! i, (e1 # es1) ! i, ok)"
      using f a by (cases i) auto
  qed
  from r n b show ?case by (intro exI[of _ "p1 # ps1"] exI[of _ "e1 # es1"]) simp
qed

lemma confirm_field_entry:
  assumes "widget p \<noteq> ''box''" and "confirm_field p (Entry t s tip) = Inr (p', e', ok)"
  shows "(\<forall>x. call (verify p) (PStr t) = Inl x \<longrightarrow>
            e' = Entry t ''Custom.TEntry'' (tip_text (exn_str x)) \<and> p' = p \<and> \<not> ok)
       \<and> (\<forall>v h. call (verify p) (PStr t) = Inr v \<and> help_text (widget p) = Some h \<and> \<not> py_eq v h \<longrightarrow>
            e' = Entry t ''TEntry'' None \<and> p' = p\<lparr>pvalue := v\<rparr> \<and> ok)
       \<and> (\<forall>v h. call (verify p) (PStr t) = Inr v \<and> help_text (widget p) = Some h \<and> py_eq v h \<longrightarrow>
            e' = Entry t s tip \<and> p' = p \<and> ok)"
  using assms
  by (auto simp: confirm_field_def mark_error_def clear_error_def split: sum.splits option.splits)

lemma confirm_finish:
  "parameters (if ok then (create_log_window (set_disabled g2 True))\<lparr>event := True\<rparr> else g2)
     = parameters g2
   \<and> entries (if ok then (create_log_window (set_disabled g2 True))\<lparr>event := True\<rparr> else g2)
     = entries g2
   \<and> event (if ok then (create_log_window (set_disabled g2 True))\<lparr>event := True\<rparr> else g2)
     = (event g2 \<or> ok)
   \<and> (ok \<longrightarrow>
        disabled (if ok then (create_log_window (set_disabled g2 True))\<lparr>event := True\<rparr> else g2)
      \<and> log_window (if ok then (create_log_window (set_disabled g2 True))\<lparr>event := True\<rparr> else g2)
      \<and> log_list (if ok then (create_log_window (set_disabled g2 True))\<lparr>event := True\<rparr> else g2)
          = Some [])
   \<and> (\<not> ok \<longrightarrow>
        disabled (if ok then (create_log_window (set_disabled g2 True))\<lparr>event := True\<rparr> else g2)
          = disabled g2
      \<and> log_window (if ok then (create_log_window (set_disabled g2 True))\<lparr>event := True\<rparr> else g2)
          = log_window g2)"
  by (simp add: create_log_window_def set_disabled_def)

lemma confirm_consistent:
  assumes "parameters g (mode g) = Some ps" and "entries g (mode g) = Some es"
    and "list_all2 consistent_field ps es"
  shows "\<exists>g' ps' es'. confirm g = (g', None)
           \<and> parameters g' = (parameters g)(mode g \<mapsto> ps')
           \<and> entries g' = (entries g)(mode g \<mapsto> es')
           \<and> length ps' = length ps \<and> length es' = length es
           \<and> (\<forall>i<length ps. \<exists>ok. confirm_field (ps ! i) (es ! i) = Inr (ps' ! i, es' ! i, ok))
           \<and> event g' = (event g \<or> list_all2 validator_succeeds ps es)
           \<and> (list_all2 validator_succeeds ps es \<longrightarrow>
                 disabled g' \<and> log_window g' \<and> log_list g' = Some [])
           \<and> (\<not> list_all2 validator_succeeds ps es \<longrightarrow>
                 disabled g' = disabled g \<and> log_window g' = log_window g)"
proof -
  from confirm_loop_consistent[OF assms(3), of True] obtain ps' es' where
    l: "confirm_loop ps es True = ((ps', es', list_all2 validator_succeeds ps es), None)"
    and n: "length ps' = length ps" "length es' = length es"
    and a: "\<forall>i<length ps. \<exists>ok. confirm_field (ps ! i) (es ! i) = Inr (ps' ! i, es' ! i, ok)"
    by auto
  let ?g1 = "g\<lparr>parameters := (parameters g)(mode g \<mapsto> ps'),
               entries := (entries g)(mode g \<mapsto> es')\<rparr>"
  let ?ok = "list_all2 validator_succeeds ps es"
  let ?g2 = "log_all ?g1 [''completed'', '' '', (if ?ok then ''True'' else ''False''), [CHR 0x0A]]"
  let ?g' = "if ?ok then (create_log_window (set_disabled ?g2 True))\<lparr>event := True\<rparr> else ?g2"
  have c: "confirm g = (?g', None)"
    using assms(1,2) l by (simp add: confirm_def Let_def)
  have f0: "parameters ?g2 = parameters ?g1" "entries ?g2 = entries ?g1"
      "event ?g2 = event ?g1" "disabled ?g2 = disabled ?g1" "log_window ?g2 = log_window ?g1"
    using log_all_frame by blast+
  have f: "parameters ?g2 = (parameters g)(mode g \<mapsto> ps')"
      "entries ?g2 = (entries g)(mode g \<mapsto> es')"
      "event ?g2 = event g" "disabled ?g2 = disabled g" "log_window ?g2 = log_window g"
    unfolding f0 by simp_all
  note fin = confirm_finish[of ?ok ?g2]
  have p: "parameters ?g' = (parameters g)(mode g \<mapsto> ps')"
    using fin f(1) by metis
  have e: "entries ?g' = (entries g)(mode g \<mapsto> es')"
    using fin f(2) by metis
  have v: "event ?g' = (event g \<or> ?ok)"
    using fin f(3) by metis
  have d: "?ok \<longrightarrow> disabled ?g' \<and> log_window ?g' \<and> log_list ?g' = Some []"
    using fin by metis
  have u: "\<not> ?ok \<longrightarrow> disabled ?g' = disabled g \<and> log_window ?g' = log_window g"
    using fin f(4,5) by metis
  from c p e n a v d u show ?thesis by blast
qed

text \<open>
  Claim C2, as stated, fails. A field whose validator rejects the empty text is submitted
  empty and gets the error style; then the text is set to the placeholder \<open>Enter...\<close>
  and the form is submitted again: the validator succeeds, the error style and the tool tip
  stay on the field, and the caller is released.
\<close>

theorem C2_confirm_counterexample:
  "entries (fst (confirm ((new_gui [''1.0'' \<mapsto>
        [projr (snd (Parameter_init {} ((init_args ''a'')\<lparr>arg_verify := Function 1
           (\<lambda>v. if v = PStr [] then Inl (ValueError (Lit ''empty'')) else Inr v)\<rparr>)))]])
      \<lparr>mode := ''1.0'', entries := [''1.0'' \<mapsto> [Entry [] [] None]]\<rparr>))) ''1.0''
     = Some [Entry [] ''Custom.TEntry'' (Some (Lit ''empty''))]
   \<and> entries (fst (confirm ((new_gui [''1.0'' \<mapsto>
        [projr (snd (Parameter_init {} ((init_args ''a'')\<lparr>arg_verify := Function 1
           (\<lambda>v. if v = PStr [] then Inl (ValueError (Lit ''empty'')) else Inr v)\<rparr>)))]])
      \<lparr>mode := ''1.0'', entries := [''1.0'' \<mapsto>
           [Entry ''Enter...'' ''Custom.TEntry'' (Some (Lit ''empty''))]]\<rparr>))) ''1.0''
     = Some [Entry ''Enter...'' ''Custom.TEntry'' (Some (Lit ''empty''))]
   \<and> event (fst (confirm ((new_gui [''1.0'' \<mapsto>
        [projr (snd (Parameter_init {} ((init_args ''a'')\<lparr>arg_verify := Function 1
           (\<lambda>v. if v = PStr [] then Inl (ValueError (Lit ''empty'')) else Inr v)\<rparr>)))]])
      \<lparr>mode := ''1.0'', entries := [''1.0'' \<mapsto>
           [Entry ''Enter...'' ''Custom.TEntry'' (Some (Lit ''empty''))]]\<rparr>)))"
  by (simp add: confirm_def confirm_field_def Parameter_init_def init_args_def short_flag_def
      long_flag_def init_meta_def new_gui_def help_text_def mark_error_def clear_error_def
      tip_text_def log_def create_log_window_def set_disabled_def)

text \<open>
  Claim C2, amended. On a form whose fields are consistent and whose caller is waiting,
  \<open>confirm\<close> does not raise, and for every parameter of the active mode that is not a
  check box the text of its entry is passed to its validator. When the validator fails, the
  entry gets the error style and the message as tool tip. When it succeeds with a result
  other than the placeholder of the widget kind, the entry gets the plain style, the tool tip
  is removed and the result is stored as value. When it succeeds with the placeholder as
  result, entry and parameter are left as they are, an earlier error style included. The
  caller's wait is released if and only if the validator of every field succeeded in the
  pass; then the inputs are disabled and a log window with an empty log is open, otherwise
  both are as before.
\<close>

theorem C2_confirm:
  assumes "parameters g (mode g) = Some ps" and "entries g (mode g) = Some es"
    and "list_all2 consistent_field ps es" and "\<not> event g"
  shows "\<exists>g' ps' es'. confirm g = (g', None)
           \<and> parameters g' (mode g) = Some ps' \<and> entries g' (mode g) = Some es'
           \<and> (\<forall>i<length ps. widget (ps ! i) \<noteq> ''box'' \<longrightarrow>
                (\<exists>t s tip. es ! i = Entry t s tip
                   \<and> (\<forall>x. call (verify (ps ! i)) (PStr t) = Inl x \<longrightarrow>
                         es' ! i = Entry t ''Custom.TEntry'' (tip_text (exn_str x))
                         \<and> ps' ! i = ps ! i \<and> \<not> event g')
                   \<and> (\<forall>v h. call (verify (ps ! i)) (PStr t) = Inr v
                            \<and> help_text (widget (ps ! i)) = Some h \<and> \<not> py_eq v h \<longrightarrow>
                         es' ! i = Entry t ''TEntry'' None
                         \<and> ps' ! i = (ps ! i)\<lparr>pvalue := v\<rparr>)
                   \<and> (\<forall>v h. call (verify (ps ! i)) (PStr t) = Inr v
                            \<and> help_text (widget (ps ! i)) = Some h \<and> py_eq v h \<longrightarrow>
                         es' ! i = es ! i \<and> ps' ! i = ps ! i)))
           \<and> (event g' \<longleftrightarrow> list_all2 validator_succeeds ps es)
           \<and> (event g' \<longrightarrow> disabled g' \<and> log_window g' \<and> log_list g' = Some [])
           \<and> (\<not> event g' \<longrightarrow> disabled g' = disabled g \<and> log_window g' = log_window g)"
proof -
  from confirm_consistent[OF assms(1-3)] assms(4) obtain g' ps' es' where
    c: "confirm g = (g', None)"
    and p: "parameters g' = (parameters g)(mode g \<mapsto> ps')"
    and e: "entries g' = (entries g)(mode g \<mapsto> es')"
    and a: "\<forall>i<length ps. \<exists>ok. confirm_field (ps ! i) (es ! i) = Inr (ps' ! i, es' ! i, ok)"
    and v: "event g' = list_all2 validator_succeeds ps es"
    and d: "list_all2 validator_succeeds ps es \<longrightarrow>
              disabled g' \<and> log_window g' \<and> log_list g' = Some []"
    and u: "\<not> list_all2 validator_succeeds ps es \<longrightarrow>
              disabled g' = disabled g \<and> log_window g' = log_window g"
    by auto
  have len: "length es = length ps" using assms(3) by (simp add: list_all2_lengthD)
  have fields: "\<exists>t s tip. es ! i = Entry t s tip
                   \<and> (\<forall>x. call (verify (ps ! i)) (PStr t) = Inl x \<longrightarrow>
                         es' ! i = Entry t ''Custom.TEntry'' (tip_text (exn_str x))
                         \<and> ps' ! i = ps ! i \<and> \<not> event g')
                   \<and> (\<forall>v h. call (verify (ps ! i)) (PStr t) = Inr v
                            \<and> help_text (widget (ps ! i)) = Some h \<and> \<not> py_eq v h \<longrightarrow>
                         es' ! i = Entry t ''TEntry'' None
                         \<and> ps' ! i = (ps ! i)\<lparr>pvalue := v\<rparr>)
                   \<and> (\<forall>v h. call (verify (ps ! i)) (PStr t) = Inr v
                            \<and> help_text (widget (ps ! i)) = Some h \<and> py_eq v h \<longrightarrow>
                         es' ! i = es ! i \<and> ps' ! i = ps ! i)"
    if i: "i < length ps" and nb: "widget (ps ! i) \<noteq> ''box''" for i
  proof -
    from assms(3) i have cf: "consistent_field (ps ! i) (es ! i)"
      by (simp add: list_all2_conv_all_nth)
    with nb obtain t s tip where en: "es ! i = Entry t s tip"
      by (cases "es ! i") (auto simp: consistent_field_def)
    from a i obtain ok where
      f: "confirm_field (ps ! i) (Entry t s tip) = Inr (ps' ! i, es' ! i, ok)"
      using en by auto
    note r = confirm_field_entry[OF nb f]
    have fail: "\<not> event g'" if "call (verify (ps ! i)) (PStr t) = Inl x" for x
    proof -
      from that en nb have "\<not> validator_succeeds (ps ! i) (es ! i)"
        by (simp add: validator_succeeds_def)
      with i len have "\<not> list_all2 validator_succeeds ps es"
        by (auto simp: list_all2_conv_all_nth)
      with v show ?thesis by simp
    qed
    from r fail en show ?thesis by auto
  qed
  from c p e fields v d u show ?thesis by auto
qed

theorem C2_confirm_witness:
  "event (fst (confirm ((new_gui [''1.0'' \<mapsto>
        [projr (snd (Parameter_init {} ((init_args ''a'')\<lparr>arg_verify := Function 1
           (\<lambda>v. if v = PStr [] then Inl (ValueError (Lit ''empty'')) else Inr v)\<rparr>))),
         projr (snd (Parameter_init {} ((init_args ''b'')\<lparr>arg_nargs := PInt 0\<rparr>)))]])
      \<lparr>mode := ''1.0'', entries := [''1.0'' \<mapsto>
           [Entry ''hello'' ''Custom.TEntry'' (Some (Lit ''empty'')),
            Checkbutton True ''Custom.TCheckbutton'' None]]\<rparr>)))
   \<and> map_option (\<lambda>es. es ! 0) (entries (fst (confirm ((new_gui [''1.0'' \<mapsto>
        [projr (snd (Parameter_init {} ((init_args ''a'')\<lparr>arg_verify := Function 1
           (\<lambda>v. if v = PStr [] then Inl (ValueError (Lit ''empty'')) else Inr v)\<rparr>))),
         projr (snd (Parameter_init {} ((init_args ''b'')\<lparr>arg_nargs := PInt 0\<rparr>)))]])
      \<lparr>mode := ''1.0'', entries := [''1.0'' \<mapsto>
           [Entry ''hello'' ''Custom.TEntry'' (Some (Lit ''empty'')),
            Checkbutton True ''Custom.TCheckbutton'' None]]\<rparr>))) ''1.0'')
     = Some (Entry ''hello'' ''TEntry'' None)"
proof -
  define f :: "pyval \<Rightarrow> exn + pyval"
    where "f = (\<lambda>v. if v = PStr [] then Inl (ValueError (Lit ''empty'')) else Inr v)"
  define a where "a = projr (snd (Parameter_init {} ((init_args ''a'')\<lparr>arg_verify := Function 1 f\<rparr>)))"
  define b where "b = projr (snd (Parameter_init {} ((init_args ''b'')\<lparr>arg_nargs := PInt 0\<rparr>)))"
  define es where "es = [Entry ''hello'' ''Custom.TEntry'' (Some (Lit ''empty'')),
              Checkbutton True ''Custom.TCheckbutton'' None]"
  define g where "g = (new_gui [''1.0'' \<mapsto> [a, b]])\<lparr>mode := ''1.0'', entries := [''1.0'' \<mapsto> es]\<rparr>"
  have wa: "widget a = ''text''" "verify a = Function 1 f"
    by (simp_all add: a_def Parameter_init_def init_args_def short_flag_def long_flag_def)
  have wb: "widget b = ''box''"
    by (simp add: b_def Parameter_init_def init_args_def short_flag_def long_flag_def
        identity_verify_def)
  have h1: "parameters g (mode g) = Some [a, b]" by (simp add: g_def new_gui_def)
  have h2: "entries g (mode g) = Some es" by (simp add: g_def new_gui_def)
  have h3: "list_all2 consistent_field [a, b] es"
    by (simp add: es_def consistent_field_def wa wb help_text_def)
  have h4: "\<not> event g" by (simp add: g_def new_gui_def)
  have m: "mode g = ''1.0''" by (simp add: g_def)
  from C2_confirm[OF h1 h2 h3 h4] obtain g' ps' es' where
    c: "confirm g = (g', None)" and e: "entries g' (mode g) = Some es'"
    and fl: "\<forall>i<length [a, b]. widget ([a, b] ! i) \<noteq> ''box'' \<longrightarrow>
                (\<exists>t s tip. es ! i = Entry t s tip
                   \<and> (\<forall>x. call (verify ([a, b] ! i)) (PStr t) = Inl x \<longrightarrow>
                         es' ! i = Entry t ''Custom.TEntry'' (tip_text (exn_str x))
                         \<and> ps' ! i = [a, b] ! i \<and> \<not> event g')
                   \<and> (\<forall>v h. call (verify ([a, b] ! i)) (PStr t) = Inr v
                            \<and> help_text (widget ([a, b] ! i)) = Some h \<and> \<not> py_eq v h \<longrightarrow>
                         es' ! i = Entry t ''TEntry'' None
                         \<and> ps' ! i = ([a, b] ! i)\<lparr>pvalue := v\<rparr>)
                   \<and> (\<forall>v h. call (verify ([a, b] ! i)) (PStr t) = Inr v
                            \<and> help_text (widget ([a, b] ! i)) = Some h \<and> py_eq v h \<longrightarrow>
                         es' ! i = es ! i \<and> ps' ! i = [a, b] ! i))"
    and v: "event g' \<longleftrightarrow> list_all2 validator_succeeds [a, b] es"
    by (elim exE conjE)
  have ok: "list_all2 validator_succeeds [a, b] es"
    by (simp add: es_def validator_succeeds_def wa wb f_def)
  have c0: "call (verify a) (PStr ''hello'') = Inr (PStr ''hello'')"
    by (simp add: wa f_def)
  have h0: "help_text (widget a) = Some (PStr ''Enter...'')"
    by (simp add: wa help_text_def)
  from fl[rule_format, of 0] wa(1)
  have "\<exists>t s tip. es ! 0 = Entry t s tip
          \<and> (\<forall>v h. call (verify a) (PStr t) = Inr v \<and> help_text (widget a) = Some h \<and> \<not> py_eq v h
                \<longrightarrow> es' ! 0 = Entry t ''TEntry'' None)"
    by auto
  then have al: "\<forall>v h. call (verify a) (PStr ''hello'') = Inr v \<and> help_text (widget a) = Some h
                \<and> \<not> py_eq v h \<longrightarrow> es' ! 0 = Entry ''hello'' ''TEntry'' None"
    by (simp add: es_def)
  have ne: "\<not> py_eq (PStr ''hello'') (PStr ''Enter...'')" by simp
  from al[rule_format, of "PStr ''hello''" "PStr ''Enter...''"] c0 h0 ne
  have z: "es' ! 0 = Entry ''hello'' ''TEntry'' None"
    by blast
  from c e v ok z m have "event (fst (confirm g))
      \<and> map_option (\<lambda>es. es ! 0) (entries (fst (confirm g)) ''1.0'')
          = Some (Entry ''hello'' ''TEntry'' None)"
    by simp
  then show ?thesis
    unfolding g_def a_def b_def es_def f_def .
qed

section \<open>What the front ends change in a parameter\<close>

lemma gui_verify_unchanged:
  "\<not> is_type (verify p) \<Longrightarrow> py_in (nargs p) [PInt 0, PInt 1, PStr ''?''] \<Longrightarrow>
     gui_verify p = verify p"
  by (simp add: gui_verify_def)

lemma confirm_parameters_frame:
  assumes "parameters g m = Some qs"
  shows "\<exists>qs'. parameters (fst (confirm g)) m = Some qs'
           \<and> list_all2 (\<lambda>p p'. p' = p\<lparr>pvalue := pvalue p'\<rparr>) qs qs'"
proof -
  have same: "list_all2 (\<lambda>p p'. p' = p\<lparr>pvalue := pvalue p'\<rparr>) qs qs"
    by (simp add: list_all2_same)
  show ?thesis
  proof (cases "parameters g (mode g)")
    case None
    then show ?thesis using assms same by (simp add: confirm_def)
  next
    case (Some ps)
    show ?thesis
    proof (cases "entries g (mode g) = None \<and> ps \<noteq> []")
      case True
      then show ?thesis using Some assms same by (auto simp: confirm_def)
    next
      case False
      define es where "es = (case entries g (mode g) of None \<Rightarrow> [] | Some es \<Rightarrow> es)"
      obtain ps' es' c x where l: "confirm_loop ps es True = ((ps', es', c), x)"
        by (metis prod_cases3 surj_pair)
      from confirm_loop_frame[OF l]
      have fr: "list_all2 (\<lambda>p p'. p' = p\<lparr>pvalue := pvalue p'\<rparr>) ps ps'" .
      let ?g1 = "g\<lparr>parameters := (parameters g)(mode g \<mapsto> ps'),
                   entries := (if entries g (mode g) = None then entries g
                               else (entries g)(mode g \<mapsto> es'))\<rparr>"
      let ?g2 = "log_all ?g1 [''completed'', '' '', (if c then ''True'' else ''False''), [CHR 0x0A]]"
      have p2: "parameters ?g2 = parameters ?g1" using log_all_frame by blast
      have c1: "fst (confirm g) =
                  (case x of Some e \<Rightarrow> ?g1
                   | None \<Rightarrow> (if c then (create_log_window (set_disabled ?g2 True))\<lparr>event := True\<rparr>
                              else ?g2))"
        using Some False l
        by (auto simp: confirm_def es_def Let_def split: option.splits)
      have "parameters (fst (confirm g)) = (parameters g)(mode g \<mapsto> ps')"
      proof (cases x)
        case None
        with c1 confirm_finish[of c ?g2] p2 show ?thesis by simp
      next
        case (Some e)
        with c1 show ?thesis by simp
      qed
      then show ?thesis using assms Some fr same by auto
    qed
  qed
qed

lemma confirm_field_value:
  assumes "confirm_field p e = Inr (p', e', ok)" and "pvalue p' \<noteq> pvalue p"
  shows "(widget p = ''box'' \<and> (\<exists>v s t. e = Checkbutton v s t \<and> pvalue p' = PBool v))
       \<or> (widget p \<noteq> ''box'' \<and> (\<exists>t s tip. e = Entry t s tip
             \<and> call (verify p) (PStr t) = Inr (pvalue p')))"
  using assms
  by (cases e)
     (auto simp: confirm_field_def split: if_splits sum.splits option.splits)

text \<open>
  Claim C9, as stated, fails. The form adapter overwrites the validator: for a parameter of
  arity \<open>+\<close> with the identity validator, the validator after \<open>load_gui\<close> maps the text
  \<open>a,b\<close> to a list where the one before returned the text. And \<open>value\<close> is overwritten
  in a pass that does not succeed: the first field is valid, the second is not, the caller is
  not released, and the first parameter has its new value.
\<close>

theorem C9_frame_counterexample:
  "call (verify (projr (snd (Parameter_init {} ((init_args ''n'')\<lparr>arg_nargs := PStr ''+''\<rparr>)))))
      (PStr ''a,b'') = Inr (PStr ''a,b'')
   \<and> call (verify (hd (load_gui_prepare
        [projr (snd (Parameter_init {} ((init_args ''n'')\<lparr>arg_nargs := PStr ''+''\<rparr>)))])))
      (PStr ''a,b'') = Inr (PList [PStr ''a'', PStr ''b''])
   \<and> map_option (map pvalue) (parameters (fst (confirm ((new_gui [''1.0'' \<mapsto>
        [projr (snd (Parameter_init {} (init_args ''a''))),
         projr (snd (Parameter_init {} ((init_args ''b'')\<lparr>arg_verify := Function 1
           (\<lambda>v. Inl (ValueError (Lit ''never'')))\<rparr>)))]])
      \<lparr>mode := ''1.0'', entries := [''1.0'' \<mapsto> [Entry ''x'' [] None, Entry ''y'' [] None]]\<rparr>)))
      ''1.0'') = Some [PStr ''x'', PNone]
   \<and> \<not> event (fst (confirm ((new_gui [''1.0'' \<mapsto>
        [projr (snd (Parameter_init {} (init_args ''a''))),
         projr (snd (Parameter_init {} ((init_args ''b'')\<lparr>arg_verify := Function 1
           (\<lambda>v. Inl (ValueError (Lit ''never'')))\<rparr>)))]])
      \<lparr>mode := ''1.0'', entries := [''1.0'' \<mapsto> [Entry ''x'' [] None, Entry ''y'' [] None]]\<rparr>)))"
  by (simp add: confirm_def confirm_field_def Parameter_init_def init_args_def short_flag_def
      long_flag_def init_meta_def new_gui_def help_text_def mark_error_def clear_error_def
      tip_text_def log_def create_log_window_def set_disabled_def identity_verify_def
      load_gui_prepare_def gui_verify_def py_in_def list_wrap_def strip_def py_isspace_def)

text \<open>
  Claim C9, amended. The front ends change no attribute of a parameter other than the
  validator and the value. \<open>load_gui\<close> replaces the validator by the one the form uses
  (the same validator for a function with arity 0, 1 or \<open>?\<close>) and leaves every other
  attribute. \<open>confirm\<close> leaves every attribute but the value, in every mode and also when
  it raises; within a pass the value of a parameter changes only to the state of its check
  button, or to what its own validator returned for the text of its entry, whether or not the
  other fields validate. \<open>load_cli\<close> assigns to no attribute.
\<close>

theorem C9_frame:
  "list_all2 (\<lambda>p p'. p' = p\<lparr>verify := gui_verify p\<rparr>) ps (load_gui_prepare ps)
   \<and> (\<forall>p. \<not> is_type (verify p) \<and> py_in (nargs p) [PInt 0, PInt 1, PStr ''?'']
          \<longrightarrow> gui_verify p = verify p)
   \<and> (\<forall>m qs. parameters g m = Some qs \<longrightarrow>
         (\<exists>qs'. parameters (fst (confirm g)) m = Some qs'
            \<and> list_all2 (\<lambda>p p'. p' = p\<lparr>pvalue := pvalue p'\<rparr>) qs qs'))
   \<and> (\<forall>p e p' e' ok. confirm_field p e = Inr (p', e', ok) \<and> pvalue p' \<noteq> pvalue p \<longrightarrow>
         (widget p = ''box'' \<and> (\<exists>v s t. e = Checkbutton v s t \<and> pvalue p' = PBool v))
       \<or> (widget p \<noteq> ''box'' \<and> (\<exists>t s tip. e = Entry t s tip
             \<and> call (verify p) (PStr t) = Inr (pvalue p'))))
   \<and> fst (load_cli parser ps) = ps"
proof -
  have 1: "list_all2 (\<lambda>p p'. p' = p\<lparr>verify := gui_verify p\<rparr>) ps (load_gui_prepare ps)"
    by (simp add: load_gui_prepare_def list_all2_map2 list_all2_same)
  have 5: "fst (load_cli parser ps) = ps" by (simp add: load_cli_def)
  from 1 5 gui_verify_unchanged confirm_parameters_frame confirm_field_value
  show ?thesis by blast
qed

theorem C9_frame_witness:
  "map name (load_gui_prepare
        [projr (snd (Parameter_init {} ((init_args ''n'')\<lparr>arg_nargs := PStr ''+''\<rparr>)))]) = [''n'']
   \<and> map_option (map name) (parameters (fst (confirm ((new_gui [''1.0'' \<mapsto>
        [projr (snd (Parameter_init {} (init_args ''a'')))]])
      \<lparr>mode := ''1.0'', entries := [''1.0'' \<mapsto> [Entry ''x'' [] None]]\<rparr>))) ''1.0'')
      = Some [''a'']"
proof -
  define n where "n = projr (snd (Parameter_init {} ((init_args ''n'')\<lparr>arg_nargs := PStr ''+''\<rparr>)))"
  define a where "a = projr (snd (Parameter_init {} (init_args ''a'')))"
  define g where "g = (new_gui [''1.0'' \<mapsto> [a]])\<lparr>mode := ''1.0'',
              entries := [''1.0'' \<mapsto> [Entry ''x'' [] None]]\<rparr>"
  have nn: "name n = ''n''"
    by (simp add: n_def Parameter_init_def init_args_def short_flag_def long_flag_def
        identity_verify_def)
  have na: "name a = ''a''"
    by (simp add: a_def Parameter_init_def init_args_def short_flag_def long_flag_def
        identity_verify_def)
  note t = C9_frame[of "[n]" g]
  from t[THEN conjunct1]
  have "list_all2 (\<lambda>p p'. p' = p\<lparr>verify := gui_verify p\<rparr>) [n] (load_gui_prepare [n])" .
  then obtain n' where l: "load_gui_prepare [n] = [n']" and n': "n' = n\<lparr>verify := gui_verify n\<rparr>"
    by (auto simp: list_all2_Cons1)
  from arg_cong[OF n', of name] nn have "name n' = ''n''" by simp
  then have 1: "map name (load_gui_prepare [n]) = [''n'']" by (simp add: l)
  have h: "parameters g ''1.0'' = Some [a]" by (simp add: g_def new_gui_def)
  from t[THEN conjunct2, THEN conjunct2, THEN conjunct1]
  have "\<forall>m qs. parameters g m = Some qs \<longrightarrow>
         (\<exists>qs'. parameters (fst (confirm g)) m = Some qs'
            \<and> list_all2 (\<lambda>p p'. p' = p\<lparr>pvalue := pvalue p'\<rparr>) qs qs')" .
  with h obtain qs' where q: "parameters (fst (confirm g)) ''1.0'' = Some qs'"
    and f: "list_all2 (\<lambda>p p'. p' = p\<lparr>pvalue := pvalue p'\<rparr>) [a] qs'"
    by blast
  from f obtain a' where qa: "qs' = [a']" and a': "a' = a\<lparr>pvalue := pvalue a'\<rparr>"
    by (auto simp: list_all2_Cons1)
  from arg_cong[OF a', of name] na have "name a' = ''a''" by simp
  with q qa have 2: "map_option (map name) (parameters (fst (confirm g)) ''1.0'') = Some [''a'']"
    by simp
  from 1 2 show ?thesis unfolding g_def a_def n_def by blast
qed

end
